theory Spec2Isabelle
  imports Main
begin

section \<open>Data model of the message processor\<close>

text \<open>
  The embedding follows \<^verbatim>\<open>agent/message/processor/processor_core.go\<close>. Types that the
  file imports from other packages (contracts, message contracts, ssmmds) are declared
  here with the fields the processor reads or writes.
\<close>

text \<open>
  Modelled from the spec: \<^verbatim>\<open>contracts.ResultStatus\<close> is declared outside the
  processor file. The four named values are the ones the spec lists; every other value
  of the Go string type (its zero value included) is \<open>ResultStatusOther\<close>.
\<close>

datatype ResultStatus =
    ResultStatusInProgress
  | ResultStatusSuccess
  | ResultStatusFailed
  | ResultStatusSuccessAndReboot
  | ResultStatusOther string

text \<open>
  Modelled from the spec: \<^verbatim>\<open>messageContracts.DocumentType\<close>; any value other than the
  two the processor dispatches on is \<open>OtherDocumentType\<close>.
\<close>

datatype DocumentType =
    SendCommand
  | CancelCommand
  | OtherDocumentType string

text \<open>The three lifecycle folders under the state directory.\<close>

datatype Folder =
    DefaultLocationOfPending
  | DefaultLocationOfCurrent
  | DefaultLocationOfCompleted

text \<open>
  Modelled from the spec: \<^verbatim>\<open>contracts.Configuration\<close> is opaque to the processor and
  is carried around as a string.
\<close>

type_synonym Configuration = string

record PluginResult =
  Status :: ResultStatus
  Output :: string

record PluginState =
  Configuration :: Configuration
  HasExecuted :: bool
  Result :: PluginResult

record DocumentInfo =
  CommandID :: string
  MessageID :: string
  Destination :: string
  DocumentStatus :: ResultStatus
  RunCount :: int
  AdditionalInfo :: string
  DocumentTraceOutput :: string
  RuntimeStatus :: string

record CancelCommandInfo =
  CancelMessageID :: string
  CancelCommandID :: string
  DebugInfo :: string

text \<open>
  \<open>PluginsInformation\<close> is a Go map from plugin name to plugin state. A \<^verbatim>\<open>range\<close> loop
  visits the entries of a Go map in an order the runtime chooses; the map is therefore
  represented by the list of its entries in the order in which the loop visits them.
  A well-formed value has pairwise distinct names.
\<close>

record DocumentState =
  DocumentInformation :: DocumentInfo
  DocumentType :: DocumentType
  PluginsInformation :: "(string \<times> PluginState) list"
  CancelInformation :: CancelCommandInfo

text \<open>The payload returned by the reply builder; only the four fields copied by the executors.\<close>

record SendReplyPayload =
  AdditionalInfo_reply :: string
  DocumentStatus_reply :: ResultStatus
  DocumentTraceOutput_reply :: string
  RuntimeStatus_reply :: string

text \<open>
  An \<^verbatim>\<open>ssmmds.Message\<close>: every field is a Go \<^verbatim>\<open>*string\<close>, so \<open>None\<close> is the nil pointer.
\<close>

record Message =
  MessageId :: "string option"
  Topic :: "string option"
  Payload :: "string option"
  Destination_msg :: "string option"

datatype Pool = sendCommandPool | cancelCommandPool

text \<open>The closure handed to a pool: which executor will run, and on which document.\<close>

datatype Job =
    JobProcessSendCommandMessage DocumentState
  | JobProcessCancelCommandMessage DocumentState
  | JobRunCmdsUsingCmdState DocumentState

datatype FailureType = InternalHandlerException

text \<open>A run-time panic of the Go program.\<close>

datatype Panic = NilPointerDereference

section \<open>The world: state store and observable calls\<close>

text \<open>
  A state file lives at
  \<^verbatim>\<open><DataStorePath>/<instanceID>/<CommandRoot>/state/<folder>/<name>\<close>; the path is kept as the
  triple of its varying components. A file either holds the JSON of a document state
  or bytes that do not unmarshal.
\<close>

type_synonym Path = "string \<times> Folder \<times> string"

datatype FileContent = Garbage | Json DocumentState

text \<open>
  Every call that leaves the processor is appended to a trace, in program order.
  \<open>EvError\<close> is an error-level log line (debug lines are not recorded).
\<close>

datatype Event =
    EvError string
  | EvSendResponse string string "string \<rightharpoonup> PluginResult"
  | EvSendDocLevelResponse string ResultStatus string
  | EvPersistData string string Folder DocumentState
  | EvPersistDocumentInfo DocumentInfo string string Folder
  | EvMoveCommandState string string Folder Folder
  | EvSubmit Pool string Job
  | EvCancel string
  | EvDeleteMessage string
  | EvFailMessage string FailureType
  | EvAcknowledgeMessage string
  | EvHandleAwsError

record World =
  store :: "Path \<rightharpoonup> FileContent"
  trace :: "Event list"

text \<open>
  The collaborators the processor file calls but does not define are parameters. Each
  one that can fail or answer differently from call to call may look at the world at
  the time of the call.
\<close>

record Env =
  CommandRetryLimit :: int
  PluginNameAwsAgentUpdate :: string
  InstanceID :: "string + string"
  IsDirEmpty :: "World \<Rightarrow> string \<Rightarrow> Folder \<Rightarrow> bool"
  ReadDir :: "World \<Rightarrow> string \<Rightarrow> Folder \<Rightarrow> string + string list"
  IsAssociation :: "DocumentState \<Rightarrow> bool"
  Submit_fails :: "Pool \<Rightarrow> string \<Rightarrow> World \<Rightarrow> bool"
  Cancel_found :: "string \<Rightarrow> World \<Rightarrow> bool"
  DeleteMessage_fails :: "string \<Rightarrow> World \<Rightarrow> bool"
  FailMessage_fails :: "string \<Rightarrow> World \<Rightarrow> bool"
  AcknowledgeMessage_fails :: "string \<Rightarrow> World \<Rightarrow> bool"
  runPlugins :: "string \<Rightarrow> (string \<rightharpoonup> Configuration) \<Rightarrow> World
                  \<Rightarrow> (string \<rightharpoonup> PluginResult) \<times> World"
  buildReply :: "string \<Rightarrow> (string \<rightharpoonup> PluginResult) \<Rightarrow> SendReplyPayload"
  loadDocStateFromSendCommand :: "Message \<Rightarrow> string + DocumentState"
  loadDocStateFromCancelCommand :: "Message \<Rightarrow> string + DocumentState"

definition emit :: "Event \<Rightarrow> World \<Rightarrow> World" where
  "emit e w = w\<lparr>trace := trace w @ [e]\<rparr>"

definition logError :: "string \<Rightarrow> World \<Rightarrow> World" where
  "logError s w = emit (EvError s) w"

subsection \<open>State store\<close>

definition emptyDocumentState :: DocumentState where
  "emptyDocumentState =
     \<lparr>DocumentInformation =
        \<lparr>CommandID = [], MessageID = [], Destination = [],
         DocumentStatus = ResultStatusOther [], RunCount = 0, AdditionalInfo = [],
         DocumentTraceOutput = [], RuntimeStatus = []\<rparr>,
      DocumentType = OtherDocumentType [],
      PluginsInformation = [],
      CancelInformation = \<lparr>CancelMessageID = [], CancelCommandID = [], DebugInfo = []\<rparr>\<rparr>"

text \<open>
  Modelled from the spec: \<^verbatim>\<open>jsonutil.UnmarshalFile\<close>. Each state file is the JSON of a
  document state and reading it back yields the document that was written; a missing
  file or one that is not such JSON is an error.
\<close>

definition UnmarshalFile :: "World \<Rightarrow> Path \<Rightarrow> string + DocumentState" where
  "UnmarshalFile w p =
     (case store w p of
        None \<Rightarrow> Inl ''no such file''
      | Some Garbage \<Rightarrow> Inl ''invalid json''
      | Some (Json d) \<Rightarrow> Inr d)"

text \<open>
  Modelled from the spec: \<^verbatim>\<open>commandStateHelper.PersistData\<close> writes or overwrites the
  record of the command in the given folder.
\<close>

definition PersistData :: "string \<Rightarrow> string \<Rightarrow> Folder \<Rightarrow> DocumentState \<Rightarrow> World \<Rightarrow> World" where
  "PersistData commandID instanceID locationFolder object w =
     emit (EvPersistData commandID instanceID locationFolder object)
       (w\<lparr>store := (store w)((instanceID, locationFolder, commandID) \<mapsto> Json object)\<rparr>)"

text \<open>
  Modelled from the spec: \<^verbatim>\<open>commandStateHelper.GetCommandInterimState\<close> reads back the
  on-disk record; where there is none to read the result is the zero document state.
\<close>

definition GetCommandInterimState :: "string \<Rightarrow> string \<Rightarrow> Folder \<Rightarrow> World \<Rightarrow> DocumentState" where
  "GetCommandInterimState commandID instanceID locationFolder w =
     (case UnmarshalFile w (instanceID, locationFolder, commandID) of
        Inl err \<Rightarrow> emptyDocumentState
      | Inr d \<Rightarrow> d)"

text \<open>
  Modelled from the spec: \<^verbatim>\<open>commandStateHelper.GetDocumentInfo\<close> reads only the
  document-level fields of the record.
\<close>

definition GetDocumentInfo :: "string \<Rightarrow> string \<Rightarrow> Folder \<Rightarrow> World \<Rightarrow> DocumentInfo" where
  "GetDocumentInfo commandID instanceID locationFolder w =
     DocumentInformation (GetCommandInterimState commandID instanceID locationFolder w)"

text \<open>
  Modelled from the spec: \<^verbatim>\<open>commandStateHelper.PersistDocumentInfo\<close> puts the
  document-level fields into the existing record and leaves its \<open>PluginsInformation\<close>
  as it is.
\<close>

definition PersistDocumentInfo :: "DocumentInfo \<Rightarrow> string \<Rightarrow> string \<Rightarrow> Folder \<Rightarrow> World \<Rightarrow> World" where
  "PersistDocumentInfo docInfo commandID instanceID locationFolder w =
     emit (EvPersistDocumentInfo docInfo commandID instanceID locationFolder)
       (w\<lparr>store := (store w)((instanceID, locationFolder, commandID) \<mapsto>
              Json ((GetCommandInterimState commandID instanceID locationFolder w)
                      \<lparr>DocumentInformation := docInfo\<rparr>))\<rparr>)"

text \<open>
  Modelled from the spec: \<^verbatim>\<open>commandStateHelper.MoveCommandState\<close> renames the record
  from one folder to the other; with no record in the source folder nothing moves.
\<close>

definition MoveCommandState :: "string \<Rightarrow> string \<Rightarrow> Folder \<Rightarrow> Folder \<Rightarrow> World \<Rightarrow> World" where
  "MoveCommandState commandID instanceID srcLocationFolder dstLocationFolder w =
     emit (EvMoveCommandState commandID instanceID srcLocationFolder dstLocationFolder)
       (case store w (instanceID, srcLocationFolder, commandID) of
          None \<Rightarrow> w
        | Some c \<Rightarrow>
            w\<lparr>store := (store w)((instanceID, srcLocationFolder, commandID) := None,
                                  (instanceID, dstLocationFolder, commandID) \<mapsto> c)\<rparr>)"

subsection \<open>Pools, message service, replies\<close>

text \<open>
  Modelled from the spec: \<^verbatim>\<open>Submit(key, job)\<close> enqueues the job under the key, or returns
  an error (pool saturated or shut down) and enqueues nothing. The first component of
  the result tells whether an error came back. The job itself runs later, on a worker
  of the pool; its run is one of the executors below.
\<close>

definition Submit :: "Env \<Rightarrow> Pool \<Rightarrow> string \<Rightarrow> Job \<Rightarrow> World \<Rightarrow> bool \<times> World" where
  "Submit env pool jobID job w =
     (if Submit_fails env pool jobID w then (True, w)
      else (False, emit (EvSubmit pool jobID job) w))"

text \<open>Modelled from the spec: \<^verbatim>\<open>Cancel(key)\<close> answers whether a job with that key was found.\<close>

definition Cancel :: "Env \<Rightarrow> string \<Rightarrow> World \<Rightarrow> bool \<times> World" where
  "Cancel env jobID w = (Cancel_found env jobID w, emit (EvCancel jobID) w)"

text \<open>
  The three calls on the message service. The source hands a returned error to
  \<^verbatim>\<open>sdkutil.HandleAwsError\<close>; the result says whether there was one.
\<close>

definition DeleteMessage :: "Env \<Rightarrow> string \<Rightarrow> World \<Rightarrow> bool \<times> World" where
  "DeleteMessage env messageID w = (DeleteMessage_fails env messageID w, emit (EvDeleteMessage messageID) w)"

definition FailMessage :: "Env \<Rightarrow> string \<Rightarrow> FailureType \<Rightarrow> World \<Rightarrow> bool \<times> World" where
  "FailMessage env messageID failureType w =
     (FailMessage_fails env messageID w, emit (EvFailMessage messageID failureType) w)"

definition AcknowledgeMessage :: "Env \<Rightarrow> string \<Rightarrow> World \<Rightarrow> bool \<times> World" where
  "AcknowledgeMessage env messageID w =
     (AcknowledgeMessage_fails env messageID w, emit (EvAcknowledgeMessage messageID) w)"

definition HandleAwsError :: "World \<Rightarrow> World" where
  "HandleAwsError w = emit EvHandleAwsError w"

definition sendResponse :: "string \<Rightarrow> string \<Rightarrow> (string \<rightharpoonup> PluginResult) \<Rightarrow> World \<Rightarrow> World" where
  "sendResponse messageID pluginID results w = emit (EvSendResponse messageID pluginID results) w"

definition sendDocLevelResponse :: "string \<Rightarrow> ResultStatus \<Rightarrow> string \<Rightarrow> World \<Rightarrow> World" where
  "sendDocLevelResponse messageID resultStatus documentTraceOutput w =
     emit (EvSendDocLevelResponse messageID resultStatus documentTraceOutput) w"

section \<open>Send-command executor\<close>

text \<open>
  Three loops of the executors fill a map with addresses,
  \<^verbatim>\<open>for k, v := range m { out[k] = &v.Field }\<close>. The file is written for a Go older than
  1.22, in which one range variable \<^verbatim>\<open>v\<close> serves the whole loop: every address stored is the
  address of that one variable, and whoever reads through the map after the loop finds
  under every key the field of the entry the loop visited last. Each loop below
  therefore carries the keys it has stored and the range variable, and \<open>aliased\<close> is
  the map as it is read after the loop.
\<close>

definition aliased :: "string list \<Rightarrow> 'a \<Rightarrow> (string \<rightharpoonup> 'a)" where
  "aliased keys x = (\<lambda>k. if k \<in> set keys then Some x else None)"

text \<open>The range variable before the first iteration: the zero plugin state.\<close>

definition zeroPluginState :: PluginState where
  "zeroPluginState =
     \<lparr>Configuration = [], HasExecuted = False,
      Result = \<lparr>Status = ResultStatusOther [], Output = []\<rparr>\<rparr>"

text \<open>
  \<^verbatim>\<open>loadPluginConfigurations\<close>: the loop leaves at the first entry it visits whose
  \<open>HasExecuted\<close> is set; that entry is then the value of the range variable. The second
  argument holds the keys stored so far, the third the range variable.
\<close>

fun loadPluginConfigurations_loop ::
  "(string \<times> PluginState) list \<Rightarrow> string list \<Rightarrow> PluginState \<Rightarrow> string list \<times> PluginState" where
  "loadPluginConfigurations_loop [] configs pluginConfig = (configs, pluginConfig)"
| "loadPluginConfigurations_loop ((pluginName, visited) # rest) configs pluginConfig =
     (if HasExecuted visited then (configs, visited)
      else loadPluginConfigurations_loop rest (pluginName # configs) visited)"

definition loadPluginConfigurations ::
  "(string \<times> PluginState) list \<Rightarrow> (string \<rightharpoonup> Configuration)" where
  "loadPluginConfigurations plugins =
     (case loadPluginConfigurations_loop plugins [] zeroPluginState of
        (configs, pluginConfig) \<Rightarrow> aliased configs (Configuration pluginConfig))"

text \<open>
  The loop \<^verbatim>\<open>for pluginName := range pluginConfigurations\<close> at the end of both executors sets
  \<open>isUpdate\<close> when some key of the map equals the name of the agent-update plugin, that
  is, when that name is a key of the map.
\<close>

definition isUpdate_of :: "Env \<Rightarrow> (string \<rightharpoonup> Configuration) \<Rightarrow> bool" where
  "isUpdate_of env pluginConfigurations = (pluginConfigurations (PluginNameAwsAgentUpdate env) \<noteq> None)"

text \<open>
  A returned error of \<^verbatim>\<open>DeleteMessage\<close> goes to the AWS error handler, in the three places
  that delete a message.
\<close>

definition deleteAndHandle :: "Env \<Rightarrow> string \<Rightarrow> World \<Rightarrow> World" where
  "deleteAndHandle env messageID w =
     (case DeleteMessage env messageID w of
        (err, w') \<Rightarrow> if err then HandleAwsError w' else w')"

text \<open>\<^verbatim>\<open>processSendCommandMessage\<close>, run by a worker of the send-command pool.\<close>

definition processSendCommandMessage :: "Env \<Rightarrow> DocumentState \<Rightarrow> World \<Rightarrow> World" where
  "processSendCommandMessage env docState w =
     (let pluginConfigurations = loadPluginConfigurations (PluginsInformation docState);
          ran = runPlugins env (MessageID (DocumentInformation docState)) pluginConfigurations w;
          outputs = fst ran;
          w1 = snd ran;
          payloadDoc = buildReply env [] outputs;
          documentInfo0 = GetDocumentInfo (CommandID (DocumentInformation docState))
                            (Destination (DocumentInformation docState)) DefaultLocationOfCurrent w1;
          documentInfo = documentInfo0
            \<lparr>AdditionalInfo := AdditionalInfo_reply payloadDoc,
             DocumentStatus := DocumentStatus_reply payloadDoc,
             DocumentTraceOutput := DocumentTraceOutput_reply payloadDoc,
             RuntimeStatus := RuntimeStatus_reply payloadDoc\<rparr>;
          w2 = PersistDocumentInfo documentInfo (CommandID (DocumentInformation docState))
                 (Destination (DocumentInformation docState)) DefaultLocationOfCurrent w1
      in if DocumentStatus documentInfo = ResultStatusSuccessAndReboot then w2
         else
           (let w3 = sendResponse (MessageID (DocumentInformation docState)) [] outputs w2;
                w4 = MoveCommandState (CommandID (DocumentInformation docState))
                       (Destination (DocumentInformation docState))
                       DefaultLocationOfCurrent DefaultLocationOfCompleted w3;
                isUpdate = isUpdate_of env pluginConfigurations
            in if \<not> isUpdate
               then deleteAndHandle env (MessageID (DocumentInformation docState)) w4
               else w4))"

text \<open>
  \<^verbatim>\<open>runCmdsUsingCmdState\<close>: the first loop visits every plugin, stores a key for each one
  that has not executed and notes whether there is any. The state of the loop is the
  keys stored, the flag and the range variable.
\<close>

fun pendingPlugins_loop ::
  "(string \<times> PluginState) list \<Rightarrow> string list \<times> bool \<times> PluginState
     \<Rightarrow> string list \<times> bool \<times> PluginState" where
  "pendingPlugins_loop [] acc = acc"
| "pendingPlugins_loop ((k, visited) # rest) (pluginConfigurations, pendingPlugins, v) =
     (if HasExecuted visited then pendingPlugins_loop rest (pluginConfigurations, pendingPlugins, visited)
      else pendingPlugins_loop rest (k # pluginConfigurations, True, visited))"

definition pendingPluginConfigurations ::
  "(string \<times> PluginState) list \<Rightarrow> (string \<rightharpoonup> Configuration)" where
  "pendingPluginConfigurations plugins =
     (case pendingPlugins_loop plugins ([], False, zeroPluginState) of
        (pluginConfigurations, pendingPlugins, v) \<Rightarrow> aliased pluginConfigurations (Configuration v))"

definition hasPendingPlugins :: "(string \<times> PluginState) list \<Rightarrow> bool" where
  "hasPendingPlugins plugins = fst (snd (pendingPlugins_loop plugins ([], False, zeroPluginState)))"

text \<open>
  The loop that builds the outputs for the reply from the record read back from the
  store stores a key for every plugin.
\<close>

fun outputs_loop ::
  "(string \<times> PluginState) list \<Rightarrow> string list \<times> PluginState \<Rightarrow> string list \<times> PluginState" where
  "outputs_loop [] acc = acc"
| "outputs_loop ((k, visited) # rest) (outputs, v) = outputs_loop rest (k # outputs, visited)"

definition replyOutputs :: "(string \<times> PluginState) list \<Rightarrow> (string \<rightharpoonup> PluginResult)" where
  "replyOutputs plugins =
     (case outputs_loop plugins ([], zeroPluginState) of
        (outputs, v) \<Rightarrow> aliased outputs (Result v))"

text \<open>
  The first part of \<^verbatim>\<open>runCmdsUsingCmdState\<close>, up to the call of the plugin runner: the
  runner is called only when some plugin is pending, and its returned outputs are not
  used. The result is the world in which the function goes on.
\<close>

definition runPendingPlugins :: "Env \<Rightarrow> DocumentState \<Rightarrow> World \<Rightarrow> World" where
  "runPendingPlugins env command w =
     (let pluginConfigurations = pendingPluginConfigurations (PluginsInformation command);
          pendingPlugins = hasPendingPlugins (PluginsInformation command)
      in if pendingPlugins
         then snd (runPlugins env (MessageID (DocumentInformation command)) pluginConfigurations w)
         else w)"

definition runCmdsUsingCmdState :: "Env \<Rightarrow> DocumentState \<Rightarrow> World \<Rightarrow> World" where
  "runCmdsUsingCmdState env command w =
     (let pluginConfigurations = pendingPluginConfigurations (PluginsInformation command);
          w1 = runPendingPlugins env command w;
          newCmdState = GetCommandInterimState (CommandID (DocumentInformation command))
                          (Destination (DocumentInformation command)) DefaultLocationOfCurrent w1;
          outputs = replyOutputs (PluginsInformation newCmdState);
          payloadDoc = buildReply env [] outputs;
          documentInfo = (DocumentInformation emptyDocumentState)
            \<lparr>AdditionalInfo := AdditionalInfo_reply payloadDoc,
             DocumentStatus := DocumentStatus_reply payloadDoc,
             DocumentTraceOutput := DocumentTraceOutput_reply payloadDoc,
             RuntimeStatus := RuntimeStatus_reply payloadDoc\<rparr>;
          w2 = PersistDocumentInfo documentInfo (CommandID (DocumentInformation command))
                 (Destination (DocumentInformation command)) DefaultLocationOfCurrent w1
      in if DocumentStatus documentInfo = ResultStatusSuccessAndReboot then w2
         else
           (let w3 = sendResponse (MessageID (DocumentInformation command)) [] outputs w2;
                w4 = MoveCommandState (CommandID (DocumentInformation newCmdState))
                       (Destination (DocumentInformation newCmdState))
                       DefaultLocationOfCurrent DefaultLocationOfCompleted w3;
                isUpdate = isUpdate_of env pluginConfigurations
            in if \<not> isUpdate
               then deleteAndHandle env (MessageID (DocumentInformation newCmdState)) w4
               else w4))"

section \<open>Cancel-command executor\<close>

text \<open>
  \<^verbatim>\<open>processCancelCommandMessage\<close> writes through the pointer to the document state; the
  document as it is on return is the first component of the result.
\<close>

definition processCancelCommandMessage :: "Env \<Rightarrow> DocumentState \<Rightarrow> World \<Rightarrow> DocumentState \<times> World" where
  "processCancelCommandMessage env docState w =
     (let cancelled = Cancel env (CancelMessageID (CancelInformation docState)) w;
          found = fst cancelled;
          w1 = snd cancelled;
          docState' =
            (if \<not> found
             then docState
                    \<lparr>CancelInformation := (CancelInformation docState)
                       \<lparr>DebugInfo := ''Command '' @ CancelCommandID (CancelInformation docState)
                                      @ '' couldn'' @ [CHR 0x27] @ ''t be cancelled''\<rparr>,
                     DocumentInformation := (DocumentInformation docState)
                       \<lparr>DocumentStatus := ResultStatusFailed\<rparr>\<rparr>
             else docState
                    \<lparr>CancelInformation := (CancelInformation docState)
                       \<lparr>DebugInfo := ''Command '' @ CancelCommandID (CancelInformation docState)
                                      @ '' cancelled''\<rparr>,
                     DocumentInformation := (DocumentInformation docState)
                       \<lparr>DocumentStatus := ResultStatusSuccess\<rparr>\<rparr>);
          w2 = PersistData (CommandID (DocumentInformation docState'))
                 (Destination (DocumentInformation docState')) DefaultLocationOfCurrent docState' w1;
          w3 = MoveCommandState (CommandID (DocumentInformation docState'))
                 (Destination (DocumentInformation docState'))
                 DefaultLocationOfCurrent DefaultLocationOfCompleted w2
      in (docState', deleteAndHandle env (MessageID (DocumentInformation docState')) w3))"

section \<open>Submission\<close>

text \<open>\<^verbatim>\<open>submitDocForExecution\<close>: the move comes first, the switch on the type after it.\<close>

definition submitDocForExecution :: "Env \<Rightarrow> DocumentState \<Rightarrow> World \<Rightarrow> World" where
  "submitDocForExecution env docState w =
     (let w1 = MoveCommandState (CommandID (DocumentInformation docState))
                 (Destination (DocumentInformation docState))
                 DefaultLocationOfPending DefaultLocationOfCurrent w
      in case DocumentType docState of
           SendCommand \<Rightarrow>
             (case Submit env sendCommandPool (MessageID (DocumentInformation docState))
                     (JobProcessSendCommandMessage docState) w1 of
                (err, w2) \<Rightarrow> if err then logError ''SendCommand failed'' w2 else w2)
         | CancelCommand \<Rightarrow>
             (case Submit env cancelCommandPool (MessageID (DocumentInformation docState))
                     (JobProcessCancelCommandMessage docState) w1 of
                (err, w2) \<Rightarrow> if err then logError ''CancelCommand failed'' w2 else w2)
         | OtherDocumentType t \<Rightarrow> logError ''unexpected document type '' w1)"

section \<open>Recovery scanner\<close>

text \<open>
  The body of the loop over the files of the pending folder, in
  \<^verbatim>\<open>processOlderMessages\<close>. Each of the two \<^verbatim>\<open>break\<close> statements ends the loop: the rest
  of the list is not looked at.
\<close>

fun processOlderMessages_loop :: "Env \<Rightarrow> string \<Rightarrow> string list \<Rightarrow> World \<Rightarrow> World" where
  "processOlderMessages_loop env instanceID [] w = w"
| "processOlderMessages_loop env instanceID (f # files) w =
     (case UnmarshalFile w (instanceID, DefaultLocationOfPending, f) of
        Inl err \<Rightarrow> logError ''skipping processsing of pending messages'' w
      | Inr docState \<Rightarrow>
          if IsAssociation env docState then w
          else processOlderMessages_loop env instanceID files (submitDocForExecution env docState w))"

text \<open>
  The loop \<^verbatim>\<open>for v := range docState.PluginsInformation\<close> of the current pass. Each entry
  is visited once; an entry that has executed with status \<open>SuccessAndReboot\<close> is stored
  back with status \<open>Success\<close>, its result is added to \<open>pluginOutputs\<close>, and the map as
  it is at that moment goes to \<open>sendResponse\<close>. The result is the plugin map after the
  loop, the output map and the world.
\<close>

fun updateRebootStatus ::
  "string \<Rightarrow> (string \<times> PluginState) list \<Rightarrow> (string \<rightharpoonup> PluginResult) \<Rightarrow> World
     \<Rightarrow> (string \<times> PluginState) list \<times> (string \<rightharpoonup> PluginResult) \<times> World" where
  "updateRebootStatus messageID [] pluginOutputs w = ([], pluginOutputs, w)"
| "updateRebootStatus messageID ((v, plugin) # rest) pluginOutputs w =
     (if HasExecuted plugin \<and> Status (Result plugin) = ResultStatusSuccessAndReboot
      then
        (let plugin' = plugin\<lparr>Result := (Result plugin)\<lparr>Status := ResultStatusSuccess\<rparr>\<rparr>;
             pluginOutputs' = pluginOutputs(v \<mapsto> Result plugin');
             w' = sendResponse messageID v pluginOutputs' w
         in case updateRebootStatus messageID rest pluginOutputs' w' of
              (plugins, outs, w'') \<Rightarrow> ((v, plugin') # plugins, outs, w''))
      else
        (case updateRebootStatus messageID rest pluginOutputs w of
           (plugins, outs, w'') \<Rightarrow> ((v, plugin) # plugins, outs, w'')))"

text \<open>
  What the current pass does to one document that it resumes: the run count goes up by
  one (it is below the retry limit, a Go \<^verbatim>\<open>int\<close>, so the increment does not wrap), the
  reboot statuses are updated, and the document is persisted to the current folder.
\<close>

definition resumeDocument :: "string \<Rightarrow> DocumentState \<Rightarrow> World \<Rightarrow> DocumentState \<times> World" where
  "resumeDocument instanceID docState w =
     (let docState1 = docState\<lparr>DocumentInformation := (DocumentInformation docState)
                         \<lparr>RunCount := RunCount (DocumentInformation docState) + 1\<rparr>\<rparr>
      in case updateRebootStatus (MessageID (DocumentInformation docState1))
                (PluginsInformation docState1) Map.empty w of
           (plugins, pluginOutputs, w1) \<Rightarrow>
             (let docState2 = docState1\<lparr>PluginsInformation := plugins\<rparr>
              in (docState2,
                  PersistData (CommandID (DocumentInformation docState2)) instanceID
                    DefaultLocationOfCurrent docState2 w1)))"

text \<open>
  The body of the loop over the files of the current folder, in
  \<^verbatim>\<open>processMessagesFromCurrent\<close>. All four \<^verbatim>\<open>break\<close> statements end the loop.
\<close>

fun processMessagesFromCurrent_loop :: "Env \<Rightarrow> string \<Rightarrow> string list \<Rightarrow> World \<Rightarrow> World" where
  "processMessagesFromCurrent_loop env instanceID [] w = w"
| "processMessagesFromCurrent_loop env instanceID (f # files) w =
     (case UnmarshalFile w (instanceID, DefaultLocationOfCurrent, f) of
        Inl err \<Rightarrow> logError ''skipping processsing of previously unexecuted messages'' w
      | Inr docState \<Rightarrow>
          if IsAssociation env docState then w
          else if RunCount (DocumentInformation docState) \<ge> CommandRetryLimit env then w
          else
            (case resumeDocument instanceID docState w of
               (docState2, w2) \<Rightarrow>
                 (case Submit env sendCommandPool (MessageID (DocumentInformation docState2))
                         (JobRunCmdsUsingCmdState docState2) w2 of
                    (err, w3) \<Rightarrow>
                      if err
                      then logError ''SendCommand failed for previously unexecuted commands'' w3
                      else processMessagesFromCurrent_loop env instanceID files w3)))"

definition processMessagesFromCurrent :: "Env \<Rightarrow> string \<Rightarrow> World \<Rightarrow> World" where
  "processMessagesFromCurrent env instanceID w =
     (if IsDirEmpty env w instanceID DefaultLocationOfCurrent then w
      else
        (case ReadDir env w instanceID DefaultLocationOfCurrent of
           Inl err \<Rightarrow> logError ''skipping reading inprogress messages'' w
         | Inr files \<Rightarrow> processMessagesFromCurrent_loop env instanceID files w))"

text \<open>
  \<^verbatim>\<open>processOlderMessages\<close>: the pending pass, then the current pass. An error of
  \<^verbatim>\<open>ReadDir\<close> on the pending folder returns before the current pass.
\<close>

definition processOlderMessages :: "Env \<Rightarrow> World \<Rightarrow> World" where
  "processOlderMessages env w =
     (case InstanceID env of
        Inl err \<Rightarrow> logError ''error fetching instance id'' w
      | Inr instanceID \<Rightarrow>
          if IsDirEmpty env w instanceID DefaultLocationOfPending
          then processMessagesFromCurrent env instanceID w
          else
            (case ReadDir env w instanceID DefaultLocationOfPending of
               Inl err \<Rightarrow> logError ''skipping reading pending messages'' w
             | Inr files \<Rightarrow>
                 processMessagesFromCurrent env instanceID
                   (processOlderMessages_loop env instanceID files w)))"

section \<open>Ingress dispatcher\<close>

text \<open>
  Modelled from the spec: \<^verbatim>\<open>validate\<close> checks that \<open>MessageId\<close>, \<open>Topic\<close>, \<open>Payload\<close> and
  \<open>Destination\<close> are not nil; \<open>Some\<close> is the error it returns.
\<close>

definition validate :: "Message \<Rightarrow> string option" where
  "validate msg =
     (if MessageId msg = None \<or> Topic msg = None \<or> Payload msg = None \<or> Destination_msg msg = None
      then Some ''message not valid''
      else None)"

text \<open>Modelled from the spec: the two topic prefixes, declared outside the processor file.\<close>

definition SendCommandTopicPrefix :: string where
  "SendCommandTopicPrefix = ''aws.ssm.sendCommand.''"

definition CancelCommandTopicPrefix :: string where
  "CancelCommandTopicPrefix = ''aws.ssm.cancelCommand.''"

definition HasPrefix :: "string \<Rightarrow> string \<Rightarrow> bool" where
  "HasPrefix s pre = (take (length pre) s = pre)"

text \<open>
  Modelled from the spec: the processor's \<^verbatim>\<open>persistData\<close> hook persists the parsed
  document to the named folder.
\<close>

definition persistData :: "DocumentState \<Rightarrow> Folder \<Rightarrow> World \<Rightarrow> World" where
  "persistData docState bookkeeping w =
     PersistData (CommandID (DocumentInformation docState))
       (Destination (DocumentInformation docState)) bookkeeping docState w"

text \<open>
  \<^verbatim>\<open>processMessage\<close>. Its first statement builds the logger context from
  \<^verbatim>\<open>*msg.MessageId\<close>, ahead of the call of \<^verbatim>\<open>validate\<close>; dereferencing a nil pointer
  panics. The topic is dereferenced after the validation.
\<close>

definition processMessage :: "Env \<Rightarrow> Message \<Rightarrow> World \<Rightarrow> Panic + World" where
  "processMessage env msg w =
     (case MessageId msg of
        None \<Rightarrow> Inl NilPointerDereference
      | Some messageID \<Rightarrow>
          (case validate msg of
             Some err \<Rightarrow> Inr (logError ''message not valid, ignoring: '' w)
           | None \<Rightarrow>
               (case Topic msg of
                  None \<Rightarrow> Inl NilPointerDereference
                | Some topic \<Rightarrow>
                    (let loaded =
                           (if HasPrefix topic SendCommandTopicPrefix
                            then loadDocStateFromSendCommand env msg
                            else if HasPrefix topic CancelCommandTopicPrefix
                            then loadDocStateFromCancelCommand env msg
                            else Inl (''unexpected topic name '' @ topic))
                     in case loaded of
                          Inl err \<Rightarrow>
                            (let w1 = logError ''format of received message is invalid '' w
                             in case FailMessage env messageID InternalHandlerException w1 of
                                  (failed, w2) \<Rightarrow> Inr (if failed then HandleAwsError w2 else w2))
                        | Inr docState \<Rightarrow>
                            (let w1 = persistData docState DefaultLocationOfPending w
                             in case AcknowledgeMessage env messageID w1 of
                                  (failed, w2) \<Rightarrow>
                                    if failed then Inr (HandleAwsError w2)
                                    else Inr (submitDocForExecution env docState
                                                (sendDocLevelResponse messageID
                                                   ResultStatusInProgress [] w2)))))))"

section \<open>Observations and example inputs\<close>

text \<open>The message ids for which \<^verbatim>\<open>DeleteMessage\<close> was called, in the order of the calls.\<close>

fun deletions :: "Event list \<Rightarrow> string list" where
  "deletions [] = []"
| "deletions (EvDeleteMessage m # es) = m # deletions es"
| "deletions (e # es) = deletions es"

text \<open>
  Concrete plugins, documents, collaborators and worlds on which the theorems below are
  evaluated.
\<close>

definition pluginDone :: PluginState where
  "pluginDone = \<lparr>Configuration = ''cfg-done'', HasExecuted = True,
                  Result = \<lparr>Status = ResultStatusSuccess, Output = ''ok''\<rparr>\<rparr>"

definition pluginTodo :: PluginState where
  "pluginTodo = \<lparr>Configuration = ''cfg-todo'', HasExecuted = False,
                  Result = \<lparr>Status = ResultStatusOther [], Output = []\<rparr>\<rparr>"

definition pluginRebooted :: PluginState where
  "pluginRebooted = \<lparr>Configuration = ''cfg-reboot'', HasExecuted = True,
                  Result = \<lparr>Status = ResultStatusSuccessAndReboot, Output = ''rebooting''\<rparr>\<rparr>"

definition replySuccess :: SendReplyPayload where
  "replySuccess = \<lparr>AdditionalInfo_reply = ''info'', DocumentStatus_reply = ResultStatusSuccess,
                    DocumentTraceOutput_reply = [], RuntimeStatus_reply = ''rt''\<rparr>"

definition env0 :: Env where
  "env0 =
     \<lparr>CommandRetryLimit = 3,
      PluginNameAwsAgentUpdate = ''aws:updateSsmAgent'',
      InstanceID = Inr ''i-0'',
      IsDirEmpty = (\<lambda>w i d. False),
      ReadDir = (\<lambda>w i d. Inr [''cmd-1'', ''cmd-2'']),
      IsAssociation = (\<lambda>d. DocumentType d = OtherDocumentType ''Association''),
      Submit_fails = (\<lambda>p k w. False),
      Cancel_found = (\<lambda>k w. True),
      DeleteMessage_fails = (\<lambda>k w. False),
      FailMessage_fails = (\<lambda>k w. False),
      AcknowledgeMessage_fails = (\<lambda>k w. False),
      runPlugins = (\<lambda>m c w. (Map.empty, w)),
      buildReply = (\<lambda>n outs. replySuccess),
      loadDocStateFromSendCommand = (\<lambda>m. Inl ''unparseable''),
      loadDocStateFromCancelCommand = (\<lambda>m. Inl ''unparseable'')\<rparr>"

definition mkDoc :: "string \<Rightarrow> int \<Rightarrow> DocumentType \<Rightarrow> (string \<times> PluginState) list \<Rightarrow> DocumentState" where
  "mkDoc name runs ty plugins =
     \<lparr>DocumentInformation =
        \<lparr>CommandID = ''cmd-'' @ name, MessageID = ''msg-'' @ name, Destination = ''i-0'',
         DocumentStatus = ResultStatusInProgress, RunCount = runs, AdditionalInfo = [],
         DocumentTraceOutput = [], RuntimeStatus = []\<rparr>,
      DocumentType = ty,
      PluginsInformation = plugins,
      CancelInformation = \<lparr>CancelMessageID = ''msg-1'', CancelCommandID = ''cmd-1'', DebugInfo = []\<rparr>\<rparr>"

definition world_of :: "(Path \<times> FileContent) list \<Rightarrow> World" where
  "world_of files = \<lparr>store = map_of files, trace = []\<rparr>"


definition docUnknown :: DocumentState where
  "docUnknown = mkDoc ''7'' 0 (OtherDocumentType ''Unknown'') [(''aws:runShellScript'', pluginTodo)]"

definition worldPendingUnknown :: World where
  "worldPendingUnknown = world_of [((''i-0'', DefaultLocationOfPending, ''cmd-7''), Json docUnknown)]"

definition docCancel :: DocumentState where
  "docCancel = mkDoc ''9'' 0 CancelCommand []"

definition worldCancel :: World where
  "worldCancel = world_of [((''i-0'', DefaultLocationOfCurrent, ''cmd-9''), Json docCancel)]"

definition replyReboot :: SendReplyPayload where
  "replyReboot = \<lparr>AdditionalInfo_reply = ''info'', DocumentStatus_reply = ResultStatusSuccessAndReboot,
                   DocumentTraceOutput_reply = [], RuntimeStatus_reply = ''rt''\<rparr>"

definition replyFor :: "(string \<rightharpoonup> PluginResult) \<Rightarrow> SendReplyPayload" where
  "replyFor outs =
     (if list_ex (\<lambda>k. map_option Status (outs k) = Some ResultStatusSuccessAndReboot)
           [''aws:applications'', ''aws:psModule'', ''aws:runShellScript'', ''aws:updateSsmAgent'']
      then replyReboot else replySuccess)"

definition envReboot :: Env where
  "envReboot = env0
     \<lparr>runPlugins := (\<lambda>m c w. ([''aws:runShellScript'' \<mapsto> Result pluginRebooted], w)),
      buildReply := (\<lambda>n outs. replyFor outs)\<rparr>"

definition docTwo :: DocumentState where
  "docTwo = mkDoc ''6'' 1 SendCommand
     [(''aws:psModule'', pluginDone), (''aws:applications'', pluginRebooted)]"

definition worldTwo :: World where
  "worldTwo = world_of [((''i-0'', DefaultLocationOfCurrent, ''cmd-6''), Json docTwo)]"

definition docSend :: DocumentState where
  "docSend = mkDoc ''1'' 0 SendCommand [(''aws:runShellScript'', pluginTodo)]"

definition worldCurrentSend :: World where
  "worldCurrentSend = world_of [((''i-0'', DefaultLocationOfCurrent, ''cmd-1''), Json docSend)]"

definition docPoisoned :: DocumentState where
  "docPoisoned = mkDoc ''1'' 3 SendCommand [(''aws:runShellScript'', pluginTodo)]"

definition docFresh :: DocumentState where
  "docFresh = mkDoc ''2'' 0 SendCommand [(''aws:runShellScript'', pluginTodo)]"

definition docAssociation :: DocumentState where
  "docAssociation = mkDoc ''1'' 0 (OtherDocumentType ''Association'') [(''aws:runShellScript'', pluginTodo)]"

definition worldPoisoned :: World where
  "worldPoisoned =
     world_of [((''i-0'', DefaultLocationOfCurrent, ''cmd-1''), Json docPoisoned),
               ((''i-0'', DefaultLocationOfCurrent, ''cmd-2''), Json docFresh)]"

definition worldGarbage :: World where
  "worldGarbage =
     world_of [((''i-0'', DefaultLocationOfPending, ''cmd-1''), Garbage),
               ((''i-0'', DefaultLocationOfPending, ''cmd-2''), Json docFresh),
               ((''i-0'', DefaultLocationOfCurrent, ''cmd-1''), Garbage),
               ((''i-0'', DefaultLocationOfCurrent, ''cmd-2''), Json docFresh)]"

definition worldAssociation :: World where
  "worldAssociation =
     world_of [((''i-0'', DefaultLocationOfPending, ''cmd-1''), Json docAssociation),
               ((''i-0'', DefaultLocationOfPending, ''cmd-2''), Json docFresh),
               ((''i-0'', DefaultLocationOfCurrent, ''cmd-1''), Json docAssociation),
               ((''i-0'', DefaultLocationOfCurrent, ''cmd-2''), Json docFresh)]"



definition docUpdate :: DocumentState where
  "docUpdate = mkDoc ''4'' 0 SendCommand [(''aws:updateSsmAgent'', pluginTodo)]"

definition worldUpdate :: World where
  "worldUpdate = world_of [((''i-0'', DefaultLocationOfCurrent, ''cmd-4''), Json docUpdate)]"

definition docUpdated :: DocumentState where
  "docUpdated = mkDoc ''5'' 1 SendCommand
     [(''aws:updateSsmAgent'', pluginDone), (''aws:runShellScript'', pluginTodo)]"

definition worldUpdated :: World where
  "worldUpdated = world_of [((''i-0'', DefaultLocationOfCurrent, ''cmd-5''), Json docUpdated)]"

definition msgWithoutId :: Message where
  "msgWithoutId = \<lparr>MessageId = None, Topic = Some ''aws.ssm.sendCommand.us-east-1.1'',
                    Payload = Some ''{}'', Destination_msg = Some ''i-0''\<rparr>"

section \<open>Basic facts about the effects\<close>

lemma trace_emit [simp]: "trace (emit e w) = trace w @ [e]"
  by (simp add: emit_def)

lemma store_emit [simp]: "store (emit e w) = store w"
  by (simp add: emit_def)


lemma trace_logError [simp]: "trace (logError s w) = trace w @ [EvError s]"
  by (simp add: logError_def)

lemma store_logError [simp]: "store (logError s w) = store w"
  by (simp add: logError_def)

lemma trace_PersistData [simp]:
  "trace (PersistData c i f d w) = trace w @ [EvPersistData c i f d]"
  by (simp add: PersistData_def)

lemma store_PersistData [simp]:
  "store (PersistData c i f d w) = (store w)((i, f, c) \<mapsto> Json d)"
  by (simp add: PersistData_def)

lemma trace_PersistDocumentInfo [simp]:
  "trace (PersistDocumentInfo di c i f w) = trace w @ [EvPersistDocumentInfo di c i f]"
  by (simp add: PersistDocumentInfo_def)

lemma store_PersistDocumentInfo [simp]:
  "store (PersistDocumentInfo di c i f w) =
     (store w)((i, f, c) \<mapsto> Json ((GetCommandInterimState c i f w)\<lparr>DocumentInformation := di\<rparr>))"
  by (simp add: PersistDocumentInfo_def)

lemma trace_MoveCommandState [simp]:
  "trace (MoveCommandState c i src dst w) = trace w @ [EvMoveCommandState c i src dst]"
  by (simp add: MoveCommandState_def split: option.split)

lemma store_MoveCommandState [simp]:
  "store (MoveCommandState c i src dst w) =
     (case store w (i, src, c) of
        None \<Rightarrow> store w
      | Some x \<Rightarrow> (store w)((i, src, c) := None, (i, dst, c) \<mapsto> x))"
  by (simp add: MoveCommandState_def split: option.split)

lemma trace_sendResponse [simp]:
  "trace (sendResponse m p r w) = trace w @ [EvSendResponse m p r]"
  by (simp add: sendResponse_def)

lemma store_sendResponse [simp]: "store (sendResponse m p r w) = store w"
  by (simp add: sendResponse_def)

lemma trace_deleteAndHandle:
  "trace (deleteAndHandle env m w) =
     trace w @ EvDeleteMessage m # (if DeleteMessage_fails env m w then [EvHandleAwsError] else [])"
  by (simp add: deleteAndHandle_def DeleteMessage_def HandleAwsError_def)

lemma store_deleteAndHandle [simp]: "store (deleteAndHandle env m w) = store w"
  by (simp add: deleteAndHandle_def DeleteMessage_def HandleAwsError_def)

lemma snd_Cancel [simp]: "snd (Cancel env k w) = emit (EvCancel k) w"
  by (simp add: Cancel_def)

lemma fst_Cancel [simp]: "fst (Cancel env k w) = Cancel_found env k w"
  by (simp add: Cancel_def)

lemma deletions_append [simp]: "deletions (xs @ ys) = deletions xs @ deletions ys"
  by (induction xs rule: deletions.induct) simp_all

lemma aliased_apply [simp]: "aliased keys x k = (if k \<in> set keys then Some x else None)"
  by (simp add: aliased_def)

lemma loadPluginConfigurations_loop_keys_fresh:
  "\<forall>(n, p) \<in> set ps. \<not> HasExecuted p \<Longrightarrow>
     set (fst (loadPluginConfigurations_loop ps keys v)) = set keys \<union> fst ` set ps"
proof (induction ps arbitrary: keys v)
  case Nil
  then show ?case by simp
next
  case (Cons x ps)
  obtain n p where x: "x = (n, p)" by (cases x)
  from Cons.prems x have fresh: "\<not> HasExecuted p" and rest: "\<forall>(n, p) \<in> set ps. \<not> HasExecuted p"
    by simp_all
  have "set (fst (loadPluginConfigurations_loop (x # ps) keys v)) =
          set (fst (loadPluginConfigurations_loop ps (n # keys) p))"
    by (simp add: x fresh)
  also have "\<dots> = set (n # keys) \<union> fst ` set ps"
    by (rule Cons.IH [OF rest])
  also have "\<dots> = set keys \<union> fst ` set (x # ps)"
    by (auto simp add: x)
  finally show ?case .
qed

lemma loadPluginConfigurations_loop_keys_pending:
  "set (fst (loadPluginConfigurations_loop ps keys v)) \<subseteq>
     set keys \<union> {k. \<exists>p. (k, p) \<in> set ps \<and> \<not> HasExecuted p}"
proof (induction ps arbitrary: keys v)
  case Nil
  then show ?case by simp
next
  case (Cons x ps)
  obtain n p where x: "x = (n, p)" by (cases x)
  show ?case
  proof (cases "HasExecuted p")
    case True
    then show ?thesis by (simp add: x)
  next
    case False
    have "set (fst (loadPluginConfigurations_loop (x # ps) keys v)) =
            set (fst (loadPluginConfigurations_loop ps (n # keys) p))"
      by (simp add: x False)
    also have "\<dots> \<subseteq> set (n # keys) \<union> {k. \<exists>q. (k, q) \<in> set ps \<and> \<not> HasExecuted q}"
      by (rule Cons.IH)
    also have "\<dots> \<subseteq> set keys \<union> {k. \<exists>q. (k, q) \<in> set (x # ps) \<and> \<not> HasExecuted q}"
      using False by (auto simp add: x)
    finally show ?thesis .
  qed
qed

lemma pendingPlugins_loop_keys:
  "set (fst (pendingPlugins_loop ps (keys, b, v))) =
     set keys \<union> {k. \<exists>p. (k, p) \<in> set ps \<and> \<not> HasExecuted p}"
proof (induction ps arbitrary: keys b v)
  case Nil
  then show ?case by simp
next
  case (Cons x ps)
  obtain n p where x: "x = (n, p)" by (cases x)
  show ?case
  proof (cases "HasExecuted p")
    case True
    have "set (fst (pendingPlugins_loop (x # ps) (keys, b, v))) =
            set (fst (pendingPlugins_loop ps (keys, b, p)))"
      by (simp add: x True)
    also have "\<dots> = set keys \<union> {k. \<exists>q. (k, q) \<in> set ps \<and> \<not> HasExecuted q}"
      by (rule Cons.IH)
    also have "\<dots> = set keys \<union> {k. \<exists>q. (k, q) \<in> set (x # ps) \<and> \<not> HasExecuted q}"
      using True by (auto simp add: x)
    finally show ?thesis .
  next
    case False
    have "set (fst (pendingPlugins_loop (x # ps) (keys, b, v))) =
            set (fst (pendingPlugins_loop ps (n # keys, True, p)))"
      by (simp add: x False)
    also have "\<dots> = set (n # keys) \<union> {k. \<exists>q. (k, q) \<in> set ps \<and> \<not> HasExecuted q}"
      by (rule Cons.IH)
    also have "\<dots> = set keys \<union> {k. \<exists>q. (k, q) \<in> set (x # ps) \<and> \<not> HasExecuted q}"
      using False by (auto simp add: x)
    finally show ?thesis .
  qed
qed

text \<open>
  What is read through the maps after the loops of \<^verbatim>\<open>runCmdsUsingCmdState\<close>: under every
  key the value of the entry visited last.
\<close>

lemma outputs_loop_result:
  "outputs_loop ps (keys, v) = (rev (map fst ps) @ keys, last (v # map snd ps))"
  by (induction ps arbitrary: keys v) auto

lemma replyOutputs_apply:
  "replyOutputs ps k =
     (if k \<in> fst ` set ps then Some (Result (last (zeroPluginState # map snd ps))) else None)"
  by (simp add: replyOutputs_def outputs_loop_result)

lemma pendingPlugins_loop_variable:
  "snd (snd (pendingPlugins_loop ps (keys, b, v))) = last (v # map snd ps)"
  by (induction ps arbitrary: keys b v) auto

lemma pendingPluginConfigurations_apply:
  "pendingPluginConfigurations ps k =
     (if \<exists>p. (k, p) \<in> set ps \<and> \<not> HasExecuted p
      then Some (Configuration (last (zeroPluginState # map snd ps))) else None)"
  using pendingPlugins_loop_keys [of ps "[]" False zeroPluginState]
    pendingPlugins_loop_variable [of ps "[]" False zeroPluginState]
  by (auto simp add: pendingPluginConfigurations_def case_prod_beta)

text \<open>
  A scan over a list of files does the same for two continuations of the list that
  behave alike in the world the scan of the first part ends in.
\<close>

lemma processOlderMessages_loop_append:
  "processOlderMessages_loop env i xs (processOlderMessages_loop env i pre w) =
     processOlderMessages_loop env i ys (processOlderMessages_loop env i pre w) \<Longrightarrow>
   processOlderMessages_loop env i (pre @ xs) w = processOlderMessages_loop env i (pre @ ys) w"
proof (induction pre arbitrary: w)
  case Nil
  then show ?case by simp
next
  case (Cons x pre)
  show ?case
  proof (cases "UnmarshalFile w (i, DefaultLocationOfPending, x)")
    case (Inl err)
    then show ?thesis by simp
  next
    case (Inr d)
    show ?thesis
    proof (cases "IsAssociation env d")
      case True
      with Inr show ?thesis by simp
    next
      case False
      with Inr Cons.prems Cons.IH [of "submitDocForExecution env d w"] show ?thesis by simp
    qed
  qed
qed

lemma processMessagesFromCurrent_loop_append:
  "processMessagesFromCurrent_loop env i xs (processMessagesFromCurrent_loop env i pre w) =
     processMessagesFromCurrent_loop env i ys (processMessagesFromCurrent_loop env i pre w) \<Longrightarrow>
   processMessagesFromCurrent_loop env i (pre @ xs) w = processMessagesFromCurrent_loop env i (pre @ ys) w"
proof (induction pre arbitrary: w)
  case Nil
  then show ?case by simp
next
  case (Cons x pre)
  show ?case
  proof (cases "UnmarshalFile w (i, DefaultLocationOfCurrent, x)")
    case (Inl err)
    then show ?thesis by simp
  next
    case (Inr d)
    obtain d2 w2 where resumed: "resumeDocument i d w = (d2, w2)"
      by (cases "resumeDocument i d w")
    obtain err w3 where submitted:
      "Submit env sendCommandPool (MessageID (DocumentInformation d2)) (JobRunCmdsUsingCmdState d2) w2 = (err, w3)"
      by (cases "Submit env sendCommandPool (MessageID (DocumentInformation d2)) (JobRunCmdsUsingCmdState d2) w2")
    show ?thesis
    proof (cases "IsAssociation env d \<or> RunCount (DocumentInformation d) \<ge> CommandRetryLimit env \<or> err")
      case True
      with Inr resumed submitted show ?thesis by auto
    next
      case False
      with Inr resumed submitted Cons.prems Cons.IH [of w3] show ?thesis by simp
    qed
  qed
qed

lemma example_reads:
  "UnmarshalFile worldAssociation (''i-0'', DefaultLocationOfPending, ''cmd-1'') = Inr docAssociation"
  "UnmarshalFile worldAssociation (''i-0'', DefaultLocationOfCurrent, ''cmd-1'') = Inr docAssociation"
  "UnmarshalFile worldPoisoned (''i-0'', DefaultLocationOfCurrent, ''cmd-1'') = Inr docPoisoned"
  "UnmarshalFile worldPoisoned (''i-0'', DefaultLocationOfCurrent, ''cmd-2'') = Inr docFresh"
  "UnmarshalFile worldGarbage (''i-0'', DefaultLocationOfPending, ''cmd-1'') = Inl ''invalid json''"
  "UnmarshalFile worldGarbage (''i-0'', DefaultLocationOfCurrent, ''cmd-1'') = Inl ''invalid json''"
  "UnmarshalFile worldGarbage (''i-0'', DefaultLocationOfPending, ''cmd-2'') = Inr docFresh"
  "UnmarshalFile worldGarbage (''i-0'', DefaultLocationOfCurrent, ''cmd-2'') = Inr docFresh"
  by (simp_all add: UnmarshalFile_def worldAssociation_def worldPoisoned_def worldGarbage_def world_of_def)

lemma example_docs:
  "IsAssociation env0 docAssociation"
  "\<not> IsAssociation env0 docPoisoned"
  "\<not> IsAssociation env0 docFresh"
  "CommandRetryLimit env0 = 3"
  "RunCount (DocumentInformation docPoisoned) = 3"
  "RunCount (DocumentInformation docFresh) = 0"
  by (simp_all add: env0_def docAssociation_def docPoisoned_def docFresh_def mkDoc_def)










text \<open>When the executors find the agent-update plugin among the configurations they ran.\<close>

lemma isUpdate_of_loadPluginConfigurations:
  "\<forall>(n, p) \<in> set ps. \<not> HasExecuted p \<Longrightarrow>
     isUpdate_of env (loadPluginConfigurations ps) = (PluginNameAwsAgentUpdate env \<in> fst ` set ps)"
  using loadPluginConfigurations_loop_keys_fresh [of ps "[]" zeroPluginState]
  by (simp add: isUpdate_of_def loadPluginConfigurations_def case_prod_beta)

lemma isUpdate_of_loadPluginConfigurations_executed:
  "\<forall>p. (PluginNameAwsAgentUpdate env, p) \<in> set ps \<longrightarrow> HasExecuted p \<Longrightarrow>
     \<not> isUpdate_of env (loadPluginConfigurations ps)"
  using loadPluginConfigurations_loop_keys_pending [of ps "[]" zeroPluginState]
  by (auto simp add: isUpdate_of_def loadPluginConfigurations_def case_prod_beta)

lemma isUpdate_of_pendingPlugins:
  "isUpdate_of env (pendingPluginConfigurations ps) =
     (\<exists>p. (PluginNameAwsAgentUpdate env, p) \<in> set ps \<and> \<not> HasExecuted p)"
  using pendingPlugins_loop_keys [of ps "[]" False zeroPluginState]
  by (simp add: isUpdate_of_def pendingPluginConfigurations_def case_prod_beta)

lemma deletions_deleteAndHandle:
  "deletions (drop n (trace w)) = [] \<Longrightarrow> n \<le> length (trace w) \<Longrightarrow>
     deletions (drop n (trace (deleteAndHandle env m w))) = [m]"
  by (simp add: trace_deleteAndHandle)

text \<open>
  The ingress dispatcher on a message whose id is present: a message that fails the
  validation is logged and otherwise ignored; a message of an unknown topic, or one
  that does not parse, is failed on the message service and nothing is stored.
\<close>

lemma processMessage_invalid:
  assumes "MessageId msg = Some messageID" and "validate msg \<noteq> None"
  shows "processMessage env msg w = Inr (logError ''message not valid, ignoring: '' w)"
  using assms by (auto simp add: processMessage_def)

lemma processMessage_rejected:
  assumes "MessageId msg = Some messageID" and "Topic msg = Some topic" and "validate msg = None"
    and "(if HasPrefix topic SendCommandTopicPrefix then loadDocStateFromSendCommand env msg
          else if HasPrefix topic CancelCommandTopicPrefix then loadDocStateFromCancelCommand env msg
          else Inl (''unexpected topic name '' @ topic)) = Inl err"
  shows "\<exists>w'. processMessage env msg w = Inr w' \<and> store w' = store w
           \<and> (trace w' = trace w @ [EvError ''format of received message is invalid '',
                                     EvFailMessage messageID InternalHandlerException]
              \<or> trace w' = trace w @ [EvError ''format of received message is invalid '',
                                       EvFailMessage messageID InternalHandlerException,
                                       EvHandleAwsError])"
  using assms
  by (simp add: processMessage_def Let_def FailMessage_def HandleAwsError_def del: if_split)

section \<open>Send-command executor: which plugins are handed to the runner\<close>

text \<open>
  Claim C2. The claim: the map that \<^verbatim>\<open>processSendCommandMessage\<close> hands to the plugin
  runner holds exactly the plugins that have not executed, wherever the executed ones
  sit. On a document whose loop visits an executed plugin before a pending one, the
  loop of \<^verbatim>\<open>loadPluginConfigurations\<close> leaves at the executed plugin and the pending
  one is missing from the map, while the loop of \<^verbatim>\<open>runCmdsUsingCmdState\<close> on the same
  plugins includes it.
\<close>

theorem loadPluginConfigurations_misses_pending_plugin:
  "HasExecuted pluginDone \<and> \<not> HasExecuted pluginTodo
   \<and> loadPluginConfigurations
        [(''aws:psModule'', pluginDone), (''aws:runShellScript'', pluginTodo)] ''aws:runShellScript'' = None
   \<and> pendingPluginConfigurations
        [(''aws:psModule'', pluginDone), (''aws:runShellScript'', pluginTodo)]
        ''aws:runShellScript'' = Some (Configuration pluginTodo)"
  by (simp add: loadPluginConfigurations_def pendingPluginConfigurations_def pluginDone_def pluginTodo_def)

section \<open>Send-command executor: a document that asks for a reboot\<close>

text \<open>
  Claim C3. When the document status computed after the plugin run is
  \<open>SuccessAndReboot\<close>, each of the two executors adds exactly one call after the plugin
  run, the persisting of the document info: no document-level reply, no move, no
  \<^verbatim>\<open>DeleteMessage\<close>. The record is in the current folder with the persisted info, whose
  status is \<open>SuccessAndReboot\<close>, and the completed folder is as the plugin run left it.
  The first conjunct is \<^verbatim>\<open>processSendCommandMessage\<close>, the second
  \<^verbatim>\<open>runCmdsUsingCmdState\<close>.
\<close>

theorem reboot_status_leaves_record_in_current:
  "(DocumentStatus_reply (buildReply env []
       (fst (runPlugins env (MessageID (DocumentInformation d))
               (loadPluginConfigurations (PluginsInformation d)) w))) = ResultStatusSuccessAndReboot
    \<longrightarrow> (\<exists>rec.
          store (processSendCommandMessage env d w)
            (Destination (DocumentInformation d), DefaultLocationOfCurrent, CommandID (DocumentInformation d))
            = Some (Json rec)
          \<and> DocumentStatus (DocumentInformation rec) = ResultStatusSuccessAndReboot
          \<and> trace (processSendCommandMessage env d w) =
              trace (snd (runPlugins env (MessageID (DocumentInformation d))
                            (loadPluginConfigurations (PluginsInformation d)) w))
              @ [EvPersistDocumentInfo (DocumentInformation rec) (CommandID (DocumentInformation d))
                   (Destination (DocumentInformation d)) DefaultLocationOfCurrent]
          \<and> store (processSendCommandMessage env d w)
                 (Destination (DocumentInformation d), DefaultLocationOfCompleted, CommandID (DocumentInformation d))
              = store (snd (runPlugins env (MessageID (DocumentInformation d))
                            (loadPluginConfigurations (PluginsInformation d)) w))
                 (Destination (DocumentInformation d), DefaultLocationOfCompleted, CommandID (DocumentInformation d))))
   \<and> (DocumentStatus_reply (buildReply env []
         (replyOutputs (PluginsInformation
            (GetCommandInterimState (CommandID (DocumentInformation c)) (Destination (DocumentInformation c))
               DefaultLocationOfCurrent (runPendingPlugins env c v))))) = ResultStatusSuccessAndReboot
    \<longrightarrow> (\<exists>rec.
          store (runCmdsUsingCmdState env c v)
            (Destination (DocumentInformation c), DefaultLocationOfCurrent, CommandID (DocumentInformation c))
            = Some (Json rec)
          \<and> DocumentStatus (DocumentInformation rec) = ResultStatusSuccessAndReboot
          \<and> trace (runCmdsUsingCmdState env c v) =
              trace (runPendingPlugins env c v)
              @ [EvPersistDocumentInfo (DocumentInformation rec) (CommandID (DocumentInformation c))
                   (Destination (DocumentInformation c)) DefaultLocationOfCurrent]
          \<and> store (runCmdsUsingCmdState env c v)
                 (Destination (DocumentInformation c), DefaultLocationOfCompleted, CommandID (DocumentInformation c))
              = store (runPendingPlugins env c v)
                 (Destination (DocumentInformation c), DefaultLocationOfCompleted, CommandID (DocumentInformation c))))"
  by (simp add: processSendCommandMessage_def runCmdsUsingCmdState_def Let_def)

theorem reboot_status_leaves_record_in_current_witness:
  "DocumentStatus_reply (buildReply envReboot []
       (fst (runPlugins envReboot ''msg-1'' (loadPluginConfigurations (PluginsInformation docSend))
               worldCurrentSend))) = ResultStatusSuccessAndReboot
   \<and> (\<exists>rec.
          store (processSendCommandMessage envReboot docSend worldCurrentSend)
            (''i-0'', DefaultLocationOfCurrent, ''cmd-1'') = Some (Json rec)
          \<and> DocumentStatus (DocumentInformation rec) = ResultStatusSuccessAndReboot
          \<and> trace (processSendCommandMessage envReboot docSend worldCurrentSend) =
              [EvPersistDocumentInfo (DocumentInformation rec) ''cmd-1'' ''i-0'' DefaultLocationOfCurrent]
          \<and> store (processSendCommandMessage envReboot docSend worldCurrentSend)
               (''i-0'', DefaultLocationOfCompleted, ''cmd-1'') = None)
   \<and> PluginsInformation docTwo = [(''aws:psModule'', pluginDone), (''aws:applications'', pluginRebooted)]
   \<and> DocumentStatus_reply (buildReply envReboot []
         (replyOutputs (PluginsInformation
            (GetCommandInterimState ''cmd-6'' ''i-0'' DefaultLocationOfCurrent
               (runPendingPlugins envReboot docTwo worldTwo)))))
       = ResultStatusSuccessAndReboot
   \<and> (\<exists>rec.
          store (runCmdsUsingCmdState envReboot docTwo worldTwo)
            (''i-0'', DefaultLocationOfCurrent, ''cmd-6'') = Some (Json rec)
          \<and> DocumentStatus (DocumentInformation rec) = ResultStatusSuccessAndReboot
          \<and> trace (runCmdsUsingCmdState envReboot docTwo worldTwo) =
              [EvPersistDocumentInfo (DocumentInformation rec) ''cmd-6'' ''i-0'' DefaultLocationOfCurrent]
          \<and> store (runCmdsUsingCmdState envReboot docTwo worldTwo)
               (''i-0'', DefaultLocationOfCompleted, ''cmd-6'') = None)"
proof -
  have info: "CommandID (DocumentInformation docSend) = ''cmd-1''"
    "Destination (DocumentInformation docSend) = ''i-0''"
    "MessageID (DocumentInformation docSend) = ''msg-1''"
    "CommandID (DocumentInformation docTwo) = ''cmd-6''"
    "Destination (DocumentInformation docTwo) = ''i-0''"
    "PluginsInformation docTwo = [(''aws:psModule'', pluginDone), (''aws:applications'', pluginRebooted)]"
    by (simp_all add: docSend_def docTwo_def mkDoc_def)
  have plugins: "HasExecuted pluginDone" "HasExecuted pluginRebooted"
    "Status (Result pluginRebooted) = ResultStatusSuccessAndReboot"
    by (simp_all add: pluginDone_def pluginRebooted_def)
  have reply: "buildReply envReboot n outs = replyFor outs"
    and runner: "runPlugins envReboot m cfg w = ([''aws:runShellScript'' \<mapsto> Result pluginRebooted], w)"
    for n outs m cfg w
    by (simp_all add: envReboot_def env0_def)
  have ran: "DocumentStatus_reply (replyFor [''aws:runShellScript'' \<mapsto> Result pluginRebooted])
               = ResultStatusSuccessAndReboot"
    by (simp add: replyFor_def replyReboot_def plugins)
  have pending: "runPendingPlugins envReboot docTwo worldTwo = worldTwo"
    by (simp add: runPendingPlugins_def Let_def hasPendingPlugins_def info plugins)
  have world: "trace worldCurrentSend = []"
    "store worldCurrentSend (''i-0'', DefaultLocationOfCompleted, ''cmd-1'') = None"
    "trace worldTwo = []"
    "store worldTwo (''i-0'', DefaultLocationOfCompleted, ''cmd-6'') = None"
    "GetCommandInterimState ''cmd-6'' ''i-0'' DefaultLocationOfCurrent worldTwo = docTwo"
    by (simp_all add: worldCurrentSend_def worldTwo_def world_of_def GetCommandInterimState_def
          UnmarshalFile_def)
  have resumed: "DocumentStatus_reply (replyFor (replyOutputs
                   [(''aws:psModule'', pluginDone), (''aws:applications'', pluginRebooted)]))
                   = ResultStatusSuccessAndReboot"
    by (simp add: replyFor_def replyReboot_def replyOutputs_apply plugins)
  show ?thesis
    using reboot_status_leaves_record_in_current [where env = envReboot and d = docSend
                and w = worldCurrentSend and c = docTwo and v = worldTwo]
    by (simp add: info reply runner ran pending world resumed)
qed

section \<open>Cancel-command executor\<close>

text \<open>
  Claim C6. The cancel executor sets the status to \<open>Success\<close> exactly when the pool
  reports that it found the job, and to \<open>Failed\<close> exactly when it did not, with the
  matching debug text; in both cases the calls that follow the pool's \<^verbatim>\<open>Cancel\<close> are,
  in this order, the persisting of the updated record to current, its move to
  completed, and \<^verbatim>\<open>DeleteMessage\<close> for the cancel message. Afterwards the record is in
  completed and no longer in current.
\<close>

theorem cancel_outcome_follows_pool_answer:
  assumes run: "processCancelCommandMessage env d w = (d', w')"
  shows "(DocumentStatus (DocumentInformation d') = ResultStatusSuccess
            \<longleftrightarrow> Cancel_found env (CancelMessageID (CancelInformation d)) w)
   \<and> (DocumentStatus (DocumentInformation d') = ResultStatusFailed
            \<longleftrightarrow> \<not> Cancel_found env (CancelMessageID (CancelInformation d)) w)
   \<and> DebugInfo (CancelInformation d') =
       (if Cancel_found env (CancelMessageID (CancelInformation d)) w
        then ''Command '' @ CancelCommandID (CancelInformation d) @ '' cancelled''
        else ''Command '' @ CancelCommandID (CancelInformation d) @ '' couldn'' @ [CHR 0x27] @ ''t be cancelled'')
   \<and> take 4 (drop (length (trace w)) (trace w')) =
       [EvCancel (CancelMessageID (CancelInformation d)),
        EvPersistData (CommandID (DocumentInformation d)) (Destination (DocumentInformation d))
          DefaultLocationOfCurrent d',
        EvMoveCommandState (CommandID (DocumentInformation d)) (Destination (DocumentInformation d))
          DefaultLocationOfCurrent DefaultLocationOfCompleted,
        EvDeleteMessage (MessageID (DocumentInformation d))]
   \<and> take (length (trace w)) (trace w') = trace w
   \<and> store w' (Destination (DocumentInformation d), DefaultLocationOfCompleted, CommandID (DocumentInformation d))
       = Some (Json d')
   \<and> store w' (Destination (DocumentInformation d), DefaultLocationOfCurrent, CommandID (DocumentInformation d))
       = None"
proof -
  from run have d': "d' = fst (processCancelCommandMessage env d w)"
    and w': "w' = snd (processCancelCommandMessage env d w)"
    by simp_all
  show ?thesis
    unfolding d' w'
    by (simp add: processCancelCommandMessage_def Let_def trace_deleteAndHandle)
qed

theorem cancel_outcome_follows_pool_answer_witness:
  "processCancelCommandMessage env0 docCancel worldCancel =
     (fst (processCancelCommandMessage env0 docCancel worldCancel),
      snd (processCancelCommandMessage env0 docCancel worldCancel))
   \<and> Cancel_found env0 ''msg-1'' worldCancel
   \<and> DocumentStatus (DocumentInformation (fst (processCancelCommandMessage env0 docCancel worldCancel)))
       = ResultStatusSuccess
   \<and> DebugInfo (CancelInformation (fst (processCancelCommandMessage env0 docCancel worldCancel)))
       = ''Command cmd-1 cancelled''
   \<and> trace (snd (processCancelCommandMessage env0 docCancel worldCancel)) =
       [EvCancel ''msg-1'',
        EvPersistData ''cmd-9'' ''i-0'' DefaultLocationOfCurrent
          (fst (processCancelCommandMessage env0 docCancel worldCancel)),
        EvMoveCommandState ''cmd-9'' ''i-0'' DefaultLocationOfCurrent DefaultLocationOfCompleted,
        EvDeleteMessage ''msg-9'']
   \<and> store (snd (processCancelCommandMessage env0 docCancel worldCancel))
        (''i-0'', DefaultLocationOfCompleted, ''cmd-9'')
       = Some (Json (fst (processCancelCommandMessage env0 docCancel worldCancel)))"
proof -
  have info: "CommandID (DocumentInformation docCancel) = ''cmd-9''"
    "Destination (DocumentInformation docCancel) = ''i-0''"
    "MessageID (DocumentInformation docCancel) = ''msg-9''"
    "CancelMessageID (CancelInformation docCancel) = ''msg-1''"
    "CancelCommandID (CancelInformation docCancel) = ''cmd-1''"
    by (simp_all add: docCancel_def mkDoc_def)
  have found: "Cancel_found env0 ''msg-1'' worldCancel"
    and quiet: "\<not> DeleteMessage_fails env0 k w" for k w
    by (simp_all add: env0_def)
  have empty: "trace worldCancel = []"
    by (simp add: worldCancel_def world_of_def)
  have len: "length (trace (snd (processCancelCommandMessage env0 docCancel worldCancel))) = 4"
    by (simp add: processCancelCommandMessage_def Let_def trace_deleteAndHandle quiet empty)
  show ?thesis
    using cancel_outcome_follows_pool_answer [where env = env0 and d = docCancel and w = worldCancel
                and d' = "fst (processCancelCommandMessage env0 docCancel worldCancel)"
                and w' = "snd (processCancelCommandMessage env0 docCancel worldCancel)"] len
    by (simp add: info found empty)
qed

section \<open>Submission: the move precedes the dispatch on the type\<close>

text \<open>
  Claim C10. For every document \<^verbatim>\<open>submitDocForExecution\<close> first moves the record from
  pending to current, whatever the document type: a record that was in pending is in
  current afterwards. For a type that is neither \<open>SendCommand\<close> nor \<open>CancelCommand\<close>
  the only further call is the error log; nothing is submitted to a pool.
\<close>

theorem submitDocForExecution_moves_before_dispatch:
  "take (Suc (length (trace w))) (trace (submitDocForExecution env d w)) =
     trace w @ [EvMoveCommandState (CommandID (DocumentInformation d)) (Destination (DocumentInformation d))
                  DefaultLocationOfPending DefaultLocationOfCurrent]
   \<and> (store w (Destination (DocumentInformation d), DefaultLocationOfPending, CommandID (DocumentInformation d)) = Some c
        \<longrightarrow> store (submitDocForExecution env d w)
              (Destination (DocumentInformation d), DefaultLocationOfCurrent, CommandID (DocumentInformation d)) = Some c
          \<and> store (submitDocForExecution env d w)
              (Destination (DocumentInformation d), DefaultLocationOfPending, CommandID (DocumentInformation d)) = None)
   \<and> (DocumentType d \<noteq> SendCommand \<and> DocumentType d \<noteq> CancelCommand
        \<longrightarrow> trace (submitDocForExecution env d w) =
              trace w @ [EvMoveCommandState (CommandID (DocumentInformation d)) (Destination (DocumentInformation d))
                           DefaultLocationOfPending DefaultLocationOfCurrent,
                         EvError ''unexpected document type ''])"
  by (cases "DocumentType d")
     (simp_all add: submitDocForExecution_def Let_def Submit_def)

theorem submitDocForExecution_moves_before_dispatch_witness:
  "store worldPendingUnknown (''i-0'', DefaultLocationOfPending, ''cmd-7'') = Some (Json docUnknown)
   \<and> DocumentType docUnknown \<noteq> SendCommand \<and> DocumentType docUnknown \<noteq> CancelCommand
   \<and> store (submitDocForExecution env0 docUnknown worldPendingUnknown)
        (''i-0'', DefaultLocationOfCurrent, ''cmd-7'') = Some (Json docUnknown)
   \<and> store (submitDocForExecution env0 docUnknown worldPendingUnknown)
        (''i-0'', DefaultLocationOfPending, ''cmd-7'') = None
   \<and> trace (submitDocForExecution env0 docUnknown worldPendingUnknown) =
        [EvMoveCommandState ''cmd-7'' ''i-0'' DefaultLocationOfPending DefaultLocationOfCurrent,
         EvError ''unexpected document type '']"
proof -
  have info: "CommandID (DocumentInformation docUnknown) = ''cmd-7''"
    "Destination (DocumentInformation docUnknown) = ''i-0''"
    "DocumentType docUnknown = OtherDocumentType ''Unknown''"
    by (simp_all add: docUnknown_def mkDoc_def)
  have stored: "store worldPendingUnknown (''i-0'', DefaultLocationOfPending, ''cmd-7'') = Some (Json docUnknown)"
    and empty: "trace worldPendingUnknown = []"
    by (simp_all add: worldPendingUnknown_def world_of_def)
  show ?thesis
    using submitDocForExecution_moves_before_dispatch [where w = worldPendingUnknown and d = docUnknown and env = env0 and c = "Json docUnknown"]
    by (simp add: info stored empty)
qed

section \<open>Recovery scanner: where a scan ends\<close>

text \<open>
  Claim C9. If, in the world the scan of the files before it ends in, a file of the
  pending folder (first conjunct) or of the current folder (second conjunct) holds a
  document for which \<open>IsAssociation\<close> is true, the scan of the whole listing ends as the
  scan of the files before that file does: nothing is done for that document or for
  any later file, so none of them is submitted.
\<close>

theorem scan_stops_at_association:
  "(UnmarshalFile (processOlderMessages_loop env i pre w) (i, DefaultLocationOfPending, f) = Inr d
      \<and> IsAssociation env d
      \<longrightarrow> processOlderMessages_loop env i (pre @ f # rest) w = processOlderMessages_loop env i pre w)
   \<and> (UnmarshalFile (processMessagesFromCurrent_loop env i pre w) (i, DefaultLocationOfCurrent, f) = Inr d
      \<and> IsAssociation env d
      \<longrightarrow> processMessagesFromCurrent_loop env i (pre @ f # rest) w = processMessagesFromCurrent_loop env i pre w)"
proof (intro conjI impI)
  assume "UnmarshalFile (processOlderMessages_loop env i pre w) (i, DefaultLocationOfPending, f) = Inr d
            \<and> IsAssociation env d"
  then have "processOlderMessages_loop env i (pre @ f # rest) w = processOlderMessages_loop env i (pre @ []) w"
    by (intro processOlderMessages_loop_append) simp
  then show "processOlderMessages_loop env i (pre @ f # rest) w = processOlderMessages_loop env i pre w"
    by simp
next
  assume "UnmarshalFile (processMessagesFromCurrent_loop env i pre w) (i, DefaultLocationOfCurrent, f) = Inr d
            \<and> IsAssociation env d"
  then have "processMessagesFromCurrent_loop env i (pre @ f # rest) w =
               processMessagesFromCurrent_loop env i (pre @ []) w"
    by (intro processMessagesFromCurrent_loop_append) simp
  then show "processMessagesFromCurrent_loop env i (pre @ f # rest) w = processMessagesFromCurrent_loop env i pre w"
    by simp
qed

theorem scan_stops_at_association_witness:
  "UnmarshalFile worldAssociation (''i-0'', DefaultLocationOfPending, ''cmd-1'') = Inr docAssociation
   \<and> UnmarshalFile worldAssociation (''i-0'', DefaultLocationOfCurrent, ''cmd-1'') = Inr docAssociation
   \<and> IsAssociation env0 docAssociation
   \<and> processOlderMessages_loop env0 ''i-0'' [''cmd-1'', ''cmd-2''] worldAssociation = worldAssociation
   \<and> processMessagesFromCurrent_loop env0 ''i-0'' [''cmd-1'', ''cmd-2''] worldAssociation = worldAssociation"
  using scan_stops_at_association [where env = env0 and i = "''i-0''" and pre = "[]" and w = worldAssociation
              and f = "''cmd-1''" and d = docAssociation and rest = "[''cmd-2'']"]
  by (simp add: example_reads example_docs
        del: processOlderMessages_loop.simps(2) processMessagesFromCurrent_loop.simps(2))

text \<open>
  Claim C1, as the code has it. A document of the current folder that is readable, is
  not an association document and whose run count has reached the retry limit is left
  alone (no increment, no persist, no submit, no reply), and the scan of the current
  folder ends there: the scan of the whole listing ends as the scan of the files before
  that file does.
\<close>

theorem current_scan_stops_at_poisoned:
  assumes "UnmarshalFile (processMessagesFromCurrent_loop env i pre w) (i, DefaultLocationOfCurrent, f) = Inr d"
    and "\<not> IsAssociation env d"
    and "RunCount (DocumentInformation d) \<ge> CommandRetryLimit env"
  shows "processMessagesFromCurrent_loop env i (pre @ f # rest) w = processMessagesFromCurrent_loop env i pre w"
proof -
  from assms have "processMessagesFromCurrent_loop env i (pre @ f # rest) w =
               processMessagesFromCurrent_loop env i (pre @ []) w"
    by (intro processMessagesFromCurrent_loop_append) simp
  then show ?thesis by simp
qed

theorem current_scan_stops_at_poisoned_witness:
  "UnmarshalFile worldPoisoned (''i-0'', DefaultLocationOfCurrent, ''cmd-1'') = Inr docPoisoned
   \<and> \<not> IsAssociation env0 docPoisoned
   \<and> RunCount (DocumentInformation docPoisoned) \<ge> CommandRetryLimit env0
   \<and> processMessagesFromCurrent_loop env0 ''i-0'' [''cmd-1'', ''cmd-2''] worldPoisoned = worldPoisoned"
  using current_scan_stops_at_poisoned [where env = env0 and i = "''i-0''" and pre = "[]" and w = worldPoisoned
              and f = "''cmd-1''" and d = docPoisoned and rest = "[''cmd-2'']"]
  by (simp add: example_reads example_docs del: processMessagesFromCurrent_loop.simps(2))

text \<open>
  Claim C1 as stated says that the scan goes on with the files after the poisoned one.
  Here the current folder lists a poisoned document and then a document that is fit to
  be resumed; the scan does nothing at all, whereas the scan of the second file alone
  persists and submits it.
\<close>

theorem poisoned_document_ends_current_scan:
  "RunCount (DocumentInformation docPoisoned) \<ge> CommandRetryLimit env0
   \<and> UnmarshalFile worldPoisoned (''i-0'', DefaultLocationOfCurrent, ''cmd-1'') = Inr docPoisoned
   \<and> UnmarshalFile worldPoisoned (''i-0'', DefaultLocationOfCurrent, ''cmd-2'') = Inr docFresh
   \<and> \<not> IsAssociation env0 docFresh
   \<and> RunCount (DocumentInformation docFresh) < CommandRetryLimit env0
   \<and> ReadDir env0 worldPoisoned ''i-0'' DefaultLocationOfCurrent = Inr [''cmd-1'', ''cmd-2'']
   \<and> trace (processMessagesFromCurrent env0 ''i-0'' worldPoisoned) = []
   \<and> trace (processMessagesFromCurrent_loop env0 ''i-0'' [''cmd-2''] worldPoisoned) =
        [EvPersistData ''cmd-2'' ''i-0'' DefaultLocationOfCurrent
           (mkDoc ''2'' 1 SendCommand [(''aws:runShellScript'', pluginTodo)]),
         EvSubmit sendCommandPool ''msg-2''
           (JobRunCmdsUsingCmdState (mkDoc ''2'' 1 SendCommand [(''aws:runShellScript'', pluginTodo)]))]"
proof -
  have listing: "ReadDir env0 worldPoisoned ''i-0'' DefaultLocationOfCurrent = Inr [''cmd-1'', ''cmd-2'']"
    and nonempty: "\<not> IsDirEmpty env0 worldPoisoned ''i-0'' DefaultLocationOfCurrent"
    by (simp_all add: env0_def)
  have start: "trace worldPoisoned = []"
    by (simp add: worldPoisoned_def world_of_def)
  have stop: "processMessagesFromCurrent env0 ''i-0'' worldPoisoned = worldPoisoned"
    by (simp add: processMessagesFromCurrent_def listing nonempty example_reads example_docs)
  have resumed: "resumeDocument ''i-0'' docFresh worldPoisoned =
      (mkDoc ''2'' 1 SendCommand [(''aws:runShellScript'', pluginTodo)],
       PersistData ''cmd-2'' ''i-0'' DefaultLocationOfCurrent
         (mkDoc ''2'' 1 SendCommand [(''aws:runShellScript'', pluginTodo)]) worldPoisoned)"
    by (simp add: resumeDocument_def Let_def docFresh_def mkDoc_def pluginTodo_def)
  have pool: "\<not> Submit_fails env0 p k w" for p k w
    by (simp add: env0_def)
  have mid: "MessageID (DocumentInformation (mkDoc ''2'' 1 SendCommand [(''aws:runShellScript'', pluginTodo)])) = ''msg-2''"
    by (simp add: mkDoc_def)
  have continue: "trace (processMessagesFromCurrent_loop env0 ''i-0'' [''cmd-2''] worldPoisoned) =
        [EvPersistData ''cmd-2'' ''i-0'' DefaultLocationOfCurrent
           (mkDoc ''2'' 1 SendCommand [(''aws:runShellScript'', pluginTodo)]),
         EvSubmit sendCommandPool ''msg-2''
           (JobRunCmdsUsingCmdState (mkDoc ''2'' 1 SendCommand [(''aws:runShellScript'', pluginTodo)]))]"
    by (simp add: example_reads Submit_def start resumeDocument_def Let_def
          docFresh_def mkDoc_def pluginTodo_def env0_def)
  show ?thesis
    by (simp add: example_reads example_docs listing stop start continue
          del: processMessagesFromCurrent_loop.simps)
qed

text \<open>
  Claim C5, as the code has it. A file of the pending or of the current folder that
  cannot be read or unmarshalled is logged and ends the scan of that folder: at the
  head of a listing the scan is just the log line, and at any place in a listing the
  files after it make no difference.
\<close>

theorem scan_stops_at_unreadable_file:
  "(UnmarshalFile w (i, DefaultLocationOfPending, f) = Inl err
      \<longrightarrow> processOlderMessages_loop env i (f # rest) w =
            logError ''skipping processsing of pending messages'' w)
   \<and> (UnmarshalFile (processOlderMessages_loop env i pre w) (i, DefaultLocationOfPending, f) = Inl err
      \<longrightarrow> processOlderMessages_loop env i (pre @ f # rest) w = processOlderMessages_loop env i (pre @ [f]) w)
   \<and> (UnmarshalFile w (i, DefaultLocationOfCurrent, f) = Inl err
      \<longrightarrow> processMessagesFromCurrent_loop env i (f # rest) w =
            logError ''skipping processsing of previously unexecuted messages'' w)
   \<and> (UnmarshalFile (processMessagesFromCurrent_loop env i pre w) (i, DefaultLocationOfCurrent, f) = Inl err
      \<longrightarrow> processMessagesFromCurrent_loop env i (pre @ f # rest) w =
            processMessagesFromCurrent_loop env i (pre @ [f]) w)"
proof (intro conjI impI)
  assume "UnmarshalFile (processOlderMessages_loop env i pre w) (i, DefaultLocationOfPending, f) = Inl err"
  then show "processOlderMessages_loop env i (pre @ f # rest) w = processOlderMessages_loop env i (pre @ [f]) w"
    by (intro processOlderMessages_loop_append) simp
next
  assume "UnmarshalFile (processMessagesFromCurrent_loop env i pre w) (i, DefaultLocationOfCurrent, f) = Inl err"
  then show "processMessagesFromCurrent_loop env i (pre @ f # rest) w =
               processMessagesFromCurrent_loop env i (pre @ [f]) w"
    by (intro processMessagesFromCurrent_loop_append) simp
qed simp_all

theorem scan_stops_at_unreadable_file_witness:
  "UnmarshalFile worldGarbage (''i-0'', DefaultLocationOfPending, ''cmd-1'') = Inl ''invalid json''
   \<and> UnmarshalFile worldGarbage (''i-0'', DefaultLocationOfCurrent, ''cmd-1'') = Inl ''invalid json''
   \<and> processOlderMessages_loop env0 ''i-0'' [''cmd-1'', ''cmd-2''] worldGarbage =
        logError ''skipping processsing of pending messages'' worldGarbage
   \<and> processMessagesFromCurrent_loop env0 ''i-0'' [''cmd-1'', ''cmd-2''] worldGarbage =
        logError ''skipping processsing of previously unexecuted messages'' worldGarbage"
  using scan_stops_at_unreadable_file [where env = env0 and i = "''i-0''" and pre = "[]" and w = worldGarbage
              and f = "''cmd-1''" and err = "''invalid json''" and rest = "[''cmd-2'']"]
  by (simp add: example_reads del: processOlderMessages_loop.simps processMessagesFromCurrent_loop.simps)

text \<open>
  Claim C5 as stated says that only the unreadable file is skipped. Here the pending
  folder lists an unreadable file and then a readable send-command document; the scan
  logs the error and stops, whereas the scan of the second file alone moves and submits
  it.
\<close>

theorem unreadable_file_ends_pending_scan:
  "UnmarshalFile worldGarbage (''i-0'', DefaultLocationOfPending, ''cmd-1'') = Inl ''invalid json''
   \<and> UnmarshalFile worldGarbage (''i-0'', DefaultLocationOfPending, ''cmd-2'') = Inr docFresh
   \<and> \<not> IsAssociation env0 docFresh
   \<and> trace (processOlderMessages_loop env0 ''i-0'' [''cmd-1'', ''cmd-2''] worldGarbage) =
        [EvError ''skipping processsing of pending messages'']
   \<and> trace (processOlderMessages_loop env0 ''i-0'' [''cmd-2''] worldGarbage) =
        [EvMoveCommandState ''cmd-2'' ''i-0'' DefaultLocationOfPending DefaultLocationOfCurrent,
         EvSubmit sendCommandPool ''msg-2'' (JobProcessSendCommandMessage docFresh)]"
proof -
  have start: "trace worldGarbage = []"
    by (simp add: worldGarbage_def world_of_def)
  have pool: "\<not> Submit_fails env0 p k w" for p k w
    by (simp add: env0_def)
  have doc: "CommandID (DocumentInformation docFresh) = ''cmd-2''"
    "Destination (DocumentInformation docFresh) = ''i-0''"
    "MessageID (DocumentInformation docFresh) = ''msg-2''"
    "DocumentType docFresh = SendCommand"
    by (simp_all add: docFresh_def mkDoc_def)
  have submitted: "trace (submitDocForExecution env0 docFresh worldGarbage) =
        [EvMoveCommandState ''cmd-2'' ''i-0'' DefaultLocationOfPending DefaultLocationOfCurrent,
         EvSubmit sendCommandPool ''msg-2'' (JobProcessSendCommandMessage docFresh)]"
    by (simp add: submitDocForExecution_def Let_def doc Submit_def pool start)
  show ?thesis
    by (simp add: example_reads example_docs start submitted)
qed

section \<open>Recovery scanner: resuming after a reboot\<close>



section \<open>Send-command executor: deleting the message\<close>

text \<open>
  Claim C4, as the code has it. When the document status after the plugin run is not
  \<open>SuccessAndReboot\<close>, each executor sends the document-level reply and moves the
  record to completed, and whether it then calls \<^verbatim>\<open>DeleteMessage\<close> depends on the plugins
  it ran in this execution, not on all plugins of the document.
  For \<^verbatim>\<open>runCmdsUsingCmdState\<close> (second conjunct): no call if the agent-update plugin is
  among the plugins that had not executed, exactly one call otherwise.
  For \<^verbatim>\<open>processSendCommandMessage\<close> (first conjunct): exactly one call if the document
  has no agent-update plugin that has not executed (in particular if it has none at
  all); no call if none of its plugins has executed and the agent-update plugin is one
  of them.
\<close>

theorem delete_skipped_when_update_plugin_was_run:
  "(DocumentStatus_reply (buildReply env []
       (fst (runPlugins env (MessageID (DocumentInformation d))
               (loadPluginConfigurations (PluginsInformation d)) w))) \<noteq> ResultStatusSuccessAndReboot
    \<longrightarrow>
      take 2 (drop (Suc (length (trace (snd (runPlugins env (MessageID (DocumentInformation d))
                                            (loadPluginConfigurations (PluginsInformation d)) w)))))
                (trace (processSendCommandMessage env d w))) =
        [EvSendResponse (MessageID (DocumentInformation d)) []
           (fst (runPlugins env (MessageID (DocumentInformation d))
                   (loadPluginConfigurations (PluginsInformation d)) w)),
         EvMoveCommandState (CommandID (DocumentInformation d)) (Destination (DocumentInformation d))
           DefaultLocationOfCurrent DefaultLocationOfCompleted]
      \<and> ((\<forall>p. (PluginNameAwsAgentUpdate env, p) \<in> set (PluginsInformation d) \<longrightarrow> HasExecuted p)
           \<longrightarrow> deletions (drop (length (trace (snd (runPlugins env (MessageID (DocumentInformation d))
                                            (loadPluginConfigurations (PluginsInformation d)) w))))
                  (trace (processSendCommandMessage env d w))) = [MessageID (DocumentInformation d)])
      \<and> ((\<forall>(n, p) \<in> set (PluginsInformation d). \<not> HasExecuted p)
             \<and> PluginNameAwsAgentUpdate env \<in> fst ` set (PluginsInformation d)
           \<longrightarrow> deletions (drop (length (trace (snd (runPlugins env (MessageID (DocumentInformation d))
                                            (loadPluginConfigurations (PluginsInformation d)) w))))
                  (trace (processSendCommandMessage env d w))) = []))
   \<and> (DocumentStatus_reply (buildReply env []
         (replyOutputs (PluginsInformation
            (GetCommandInterimState (CommandID (DocumentInformation c)) (Destination (DocumentInformation c))
               DefaultLocationOfCurrent (runPendingPlugins env c v))))) \<noteq> ResultStatusSuccessAndReboot
    \<longrightarrow>
      take 2 (drop (Suc (length (trace (runPendingPlugins env c v)))) (trace (runCmdsUsingCmdState env c v))) =
        [EvSendResponse (MessageID (DocumentInformation c)) []
           (replyOutputs (PluginsInformation
              (GetCommandInterimState (CommandID (DocumentInformation c)) (Destination (DocumentInformation c))
                 DefaultLocationOfCurrent (runPendingPlugins env c v)))),
         EvMoveCommandState
           (CommandID (DocumentInformation
              (GetCommandInterimState (CommandID (DocumentInformation c)) (Destination (DocumentInformation c))
                 DefaultLocationOfCurrent (runPendingPlugins env c v))))
           (Destination (DocumentInformation
              (GetCommandInterimState (CommandID (DocumentInformation c)) (Destination (DocumentInformation c))
                 DefaultLocationOfCurrent (runPendingPlugins env c v))))
           DefaultLocationOfCurrent DefaultLocationOfCompleted]
      \<and> deletions (drop (length (trace (runPendingPlugins env c v))) (trace (runCmdsUsingCmdState env c v))) =
          (if \<exists>p. (PluginNameAwsAgentUpdate env, p) \<in> set (PluginsInformation c) \<and> \<not> HasExecuted p
           then []
           else [MessageID (DocumentInformation
              (GetCommandInterimState (CommandID (DocumentInformation c)) (Destination (DocumentInformation c))
                 DefaultLocationOfCurrent (runPendingPlugins env c v)))]))"
proof (intro conjI impI)
  assume a: "DocumentStatus_reply (buildReply env []
       (fst (runPlugins env (MessageID (DocumentInformation d))
               (loadPluginConfigurations (PluginsInformation d)) w))) \<noteq> ResultStatusSuccessAndReboot"
  then show "take 2 (drop (Suc (length (trace (snd (runPlugins env (MessageID (DocumentInformation d))
                                            (loadPluginConfigurations (PluginsInformation d)) w)))))
                (trace (processSendCommandMessage env d w))) =
        [EvSendResponse (MessageID (DocumentInformation d)) []
           (fst (runPlugins env (MessageID (DocumentInformation d))
                   (loadPluginConfigurations (PluginsInformation d)) w)),
         EvMoveCommandState (CommandID (DocumentInformation d)) (Destination (DocumentInformation d))
           DefaultLocationOfCurrent DefaultLocationOfCompleted]"
    by (simp add: processSendCommandMessage_def Let_def trace_deleteAndHandle)
  {
    assume "\<forall>p. (PluginNameAwsAgentUpdate env, p) \<in> set (PluginsInformation d) \<longrightarrow> HasExecuted p"
    then have "\<not> isUpdate_of env (loadPluginConfigurations (PluginsInformation d))"
      by (rule isUpdate_of_loadPluginConfigurations_executed)
    with a show "deletions (drop (length (trace (snd (runPlugins env (MessageID (DocumentInformation d))
                                            (loadPluginConfigurations (PluginsInformation d)) w))))
                  (trace (processSendCommandMessage env d w))) = [MessageID (DocumentInformation d)]"
      by (simp add: processSendCommandMessage_def Let_def trace_deleteAndHandle)
  }
  {
    assume b: "(\<forall>(n, p) \<in> set (PluginsInformation d). \<not> HasExecuted p)
                 \<and> PluginNameAwsAgentUpdate env \<in> fst ` set (PluginsInformation d)"
    then have "isUpdate_of env (loadPluginConfigurations (PluginsInformation d))"
      using isUpdate_of_loadPluginConfigurations [of "PluginsInformation d" env] by simp
    with a show "deletions (drop (length (trace (snd (runPlugins env (MessageID (DocumentInformation d))
                                            (loadPluginConfigurations (PluginsInformation d)) w))))
                  (trace (processSendCommandMessage env d w))) = []"
      by (simp add: processSendCommandMessage_def Let_def trace_deleteAndHandle)
  }
next
  assume a: "DocumentStatus_reply (buildReply env []
         (replyOutputs (PluginsInformation
            (GetCommandInterimState (CommandID (DocumentInformation c)) (Destination (DocumentInformation c))
               DefaultLocationOfCurrent (runPendingPlugins env c v))))) \<noteq> ResultStatusSuccessAndReboot"
  then show "take 2 (drop (Suc (length (trace (runPendingPlugins env c v)))) (trace (runCmdsUsingCmdState env c v))) =
        [EvSendResponse (MessageID (DocumentInformation c)) []
           (replyOutputs (PluginsInformation
              (GetCommandInterimState (CommandID (DocumentInformation c)) (Destination (DocumentInformation c))
                 DefaultLocationOfCurrent (runPendingPlugins env c v)))),
         EvMoveCommandState
           (CommandID (DocumentInformation
              (GetCommandInterimState (CommandID (DocumentInformation c)) (Destination (DocumentInformation c))
                 DefaultLocationOfCurrent (runPendingPlugins env c v))))
           (Destination (DocumentInformation
              (GetCommandInterimState (CommandID (DocumentInformation c)) (Destination (DocumentInformation c))
                 DefaultLocationOfCurrent (runPendingPlugins env c v))))
           DefaultLocationOfCurrent DefaultLocationOfCompleted]"
    by (simp add: runCmdsUsingCmdState_def Let_def trace_deleteAndHandle)
  from a show "deletions (drop (length (trace (runPendingPlugins env c v))) (trace (runCmdsUsingCmdState env c v))) =
          (if \<exists>p. (PluginNameAwsAgentUpdate env, p) \<in> set (PluginsInformation c) \<and> \<not> HasExecuted p
           then []
           else [MessageID (DocumentInformation
              (GetCommandInterimState (CommandID (DocumentInformation c)) (Destination (DocumentInformation c))
                 DefaultLocationOfCurrent (runPendingPlugins env c v)))])"
    unfolding isUpdate_of_pendingPlugins [symmetric]
    by (simp add: runCmdsUsingCmdState_def Let_def trace_deleteAndHandle)
qed

theorem delete_skipped_when_update_plugin_was_run_witness:
  "DocumentStatus_reply (buildReply env0 []
       (fst (runPlugins env0 ''msg-4'' (loadPluginConfigurations (PluginsInformation docUpdate)) worldUpdate)))
     \<noteq> ResultStatusSuccessAndReboot
   \<and> PluginsInformation docUpdate = [(''aws:updateSsmAgent'', pluginTodo)]
   \<and> \<not> HasExecuted pluginTodo
   \<and> PluginNameAwsAgentUpdate env0 = ''aws:updateSsmAgent''
   \<and> take 2 (drop 1 (trace (processSendCommandMessage env0 docUpdate worldUpdate))) =
        [EvSendResponse ''msg-4'' [] Map.empty,
         EvMoveCommandState ''cmd-4'' ''i-0'' DefaultLocationOfCurrent DefaultLocationOfCompleted]
   \<and> deletions (trace (processSendCommandMessage env0 docUpdate worldUpdate)) = []
   \<and> DocumentStatus_reply (buildReply env0 []
       (fst (runPlugins env0 ''msg-1'' (loadPluginConfigurations (PluginsInformation docSend)) worldCurrentSend)))
     \<noteq> ResultStatusSuccessAndReboot
   \<and> PluginsInformation docSend = [(''aws:runShellScript'', pluginTodo)]
   \<and> deletions (trace (processSendCommandMessage env0 docSend worldCurrentSend)) = [''msg-1'']
   \<and> DocumentStatus_reply (buildReply env0 []
         (replyOutputs (PluginsInformation
            (GetCommandInterimState ''cmd-4'' ''i-0'' DefaultLocationOfCurrent
               (runPendingPlugins env0 docUpdate worldUpdate)))))
       \<noteq> ResultStatusSuccessAndReboot
   \<and> take 2 (drop 1 (trace (runCmdsUsingCmdState env0 docUpdate worldUpdate))) =
        [EvSendResponse ''msg-4'' [] (replyOutputs [(''aws:updateSsmAgent'', pluginTodo)]),
         EvMoveCommandState ''cmd-4'' ''i-0'' DefaultLocationOfCurrent DefaultLocationOfCompleted]
   \<and> deletions (trace (runCmdsUsingCmdState env0 docUpdate worldUpdate)) = []"
proof -
  have info: "CommandID (DocumentInformation docUpdate) = ''cmd-4''"
    "Destination (DocumentInformation docUpdate) = ''i-0''"
    "MessageID (DocumentInformation docUpdate) = ''msg-4''"
    "PluginsInformation docUpdate = [(''aws:updateSsmAgent'', pluginTodo)]"
    "MessageID (DocumentInformation docSend) = ''msg-1''"
    "PluginsInformation docSend = [(''aws:runShellScript'', pluginTodo)]"
    by (simp_all add: docUpdate_def docSend_def mkDoc_def)
  have fresh: "\<not> HasExecuted pluginTodo"
    by (simp add: pluginTodo_def)
  have collaborators: "buildReply env0 n outs = replySuccess" "runPlugins env0 m cfg w = (Map.empty, w)"
    "PluginNameAwsAgentUpdate env0 = ''aws:updateSsmAgent''" for n outs m cfg w
    by (simp_all add: env0_def)
  have status: "DocumentStatus_reply replySuccess = ResultStatusSuccess"
    by (simp add: replySuccess_def)
  have pending: "runPendingPlugins env0 docUpdate worldUpdate = worldUpdate"
    by (simp add: runPendingPlugins_def Let_def collaborators)
  have world: "trace worldUpdate = []" "trace worldCurrentSend = []"
    "GetCommandInterimState ''cmd-4'' ''i-0'' DefaultLocationOfCurrent worldUpdate = docUpdate"
    by (simp_all add: worldUpdate_def worldCurrentSend_def world_of_def GetCommandInterimState_def
          UnmarshalFile_def)
  show ?thesis
    using delete_skipped_when_update_plugin_was_run [where env = env0 and d = docUpdate and w = worldUpdate
                and c = docUpdate and v = worldUpdate]
      delete_skipped_when_update_plugin_was_run [where env = env0 and d = docSend and w = worldCurrentSend
                and c = docUpdate and v = worldUpdate]
    by (simp add: info fresh collaborators status pending world)
qed

text \<open>
  Claim C4 as stated says that \<^verbatim>\<open>DeleteMessage\<close> is not called for any document that has
  the agent-update plugin. Here the document resumed by \<^verbatim>\<open>runCmdsUsingCmdState\<close> has the
  agent-update plugin, already executed, and one pending plugin; the message is deleted.
\<close>

theorem executed_update_plugin_is_deleted:
  "PluginNameAwsAgentUpdate env0 = ''aws:updateSsmAgent''
   \<and> (''aws:updateSsmAgent'', pluginDone) \<in> set (PluginsInformation docUpdated)
   \<and> DocumentStatus_reply (buildReply env0 []
         (replyOutputs (PluginsInformation
            (GetCommandInterimState ''cmd-5'' ''i-0'' DefaultLocationOfCurrent
               (runPendingPlugins env0 docUpdated worldUpdated))))) = ResultStatusSuccess
   \<and> deletions (trace (runCmdsUsingCmdState env0 docUpdated worldUpdated)) = [''msg-5'']"
proof -
  have info: "CommandID (DocumentInformation docUpdated) = ''cmd-5''"
    "Destination (DocumentInformation docUpdated) = ''i-0''"
    "MessageID (DocumentInformation docUpdated) = ''msg-5''"
    "PluginsInformation docUpdated =
       [(''aws:updateSsmAgent'', pluginDone), (''aws:runShellScript'', pluginTodo)]"
    by (simp_all add: docUpdated_def mkDoc_def)
  have plugins: "HasExecuted pluginDone" "\<not> HasExecuted pluginTodo"
    by (simp_all add: pluginDone_def pluginTodo_def)
  have collaborators: "buildReply env0 n outs = replySuccess" "runPlugins env0 m cfg w = (Map.empty, w)"
    "PluginNameAwsAgentUpdate env0 = ''aws:updateSsmAgent''" "\<not> DeleteMessage_fails env0 m w"
    for n outs m cfg w
    by (simp_all add: env0_def)
  have status: "DocumentStatus_reply replySuccess = ResultStatusSuccess"
    by (simp add: replySuccess_def)
  have pending: "runPendingPlugins env0 docUpdated worldUpdated = worldUpdated"
    by (simp add: runPendingPlugins_def Let_def collaborators)
  have world: "trace worldUpdated = []"
    "GetCommandInterimState ''cmd-5'' ''i-0'' DefaultLocationOfCurrent worldUpdated = docUpdated"
    by (simp_all add: worldUpdated_def world_of_def GetCommandInterimState_def UnmarshalFile_def)
  have "deletions (trace (runCmdsUsingCmdState env0 docUpdated worldUpdated)) = [''msg-5'']"
    by (simp add: runCmdsUsingCmdState_def Let_def info plugins collaborators status pending world
          isUpdate_of_def pendingPluginConfigurations_def trace_deleteAndHandle)
  then show ?thesis
    by (simp add: info collaborators status pending world)
qed

section \<open>Ingress dispatcher: a message without an id\<close>

text \<open>
  Claim C8. The claim: a message that fails the structural validation, a nil
  \<open>MessageId\<close> included, is ignored. For a message whose \<open>MessageId\<close> is nil the
  validation reports an error, but \<^verbatim>\<open>processMessage\<close> dereferences the id before it
  validates and panics.
\<close>

theorem processMessage_nil_MessageId_panics:
  "validate msgWithoutId = Some ''message not valid''
   \<and> processMessage env0 msgWithoutId (world_of []) = Inl NilPointerDereference"
  by (simp add: validate_def processMessage_def msgWithoutId_def)

end
